theory Spec2Isabelle
  imports Main "HOL-Library.Sublist"
begin

section \<open>Python values, exceptions and external collaborators\<close>

text \<open>
  The module \<^verbatim>\<open>mapshader/sources.py\<close> is embedded function by function. A Python
  exception is a value of \<open>error\<close>; the constructors carry the name of the Python class
  and the text that identifies the place of the raise. Everything raised inside a
  collaborator that is not part of the module (the format loaders, the transform
  registry and its callables, the data frame and array libraries, \<^verbatim>\<open>os\<close>) is
  wrapped in \<open>External\<close>, so that an exception of the module itself is never confused
  with one of a collaborator.
\<close>

datatype error =
    ValueError string
  | KeyError string
  | TypeError string
  | AttributeError string
  | IndexError string
  | NotImplementedError
  | External string

definition ext :: "string + 'a \<Rightarrow> error + 'a" where
  "ext r = (case r of Inl m \<Rightarrow> Inl (External m) | Inr x \<Rightarrow> Inr x)"

text \<open>Truthiness of an optional string (\<^verbatim>\<open>if self.config_path:\<close>, \<^verbatim>\<open>if zfield:\<close>,
  \<^verbatim>\<open>if contains and ...\<close>): \<^verbatim>\<open>None\<close> and the empty string are false.\<close>

definition truthy :: "string option \<Rightarrow> bool" where
  "truthy s = (case s of None \<Rightarrow> False | Some x \<Rightarrow> x \<noteq> [])"

text \<open>Python's \<^verbatim>\<open>a in b\<close> on two strings holds when \<open>a\<close> occurs in \<open>b\<close> as a
  contiguous run of characters, which is \<^const>\<open>sublist\<close>.\<close>

abbreviation py_in :: "string \<Rightarrow> string \<Rightarrow> bool" where
  "py_in a b \<equiv> sublist a b"

text \<open>A number is an integer or a decimal literal \<open>m / 10 ^ e\<close> (the module writes one
  such literal, the half width of the Web Mercator square).\<close>

datatype number = IntNum int | Decimal int nat

fun negate :: "number \<Rightarrow> number" where
  "negate (IntNum i) = IntNum (- i)"
| "negate (Decimal m e) = Decimal (- m) e"

datatype span = SpanStr string | SpanTuple "int list"

text \<open>The key of a resolution level is a string or an integer.\<close>

datatype level = LevelStr string | LevelInt int

text \<open>A legend entry is a dictionary; only its keys \<^verbatim>\<open>'color'\<close> and \<^verbatim>\<open>'value'\<close> are
  read. \<open>None\<close> in a field of the record means that the key is absent.\<close>

datatype legend_value = LegNone | LegNum number | LegStr string | LegSeq "number list"

record legend_entry =
  leg_name :: "string option"
  leg_color :: "string option"
  leg_value :: "legend_value option"
  leg_category :: "string option"

datatype 'v colormap = Colormap 'v | LegendMap "(legend_value \<times> string) list"

text \<open>One declared transform step: \<^verbatim>\<open>{'name': ..., 'args': {...}}\<close>, the second key
  optional.\<close>

record 'v step =
  step_name :: string
  step_args :: "(string \<times> 'v) list option"

text \<open>
  A callable of the transform registry. Python does not type its result: the pipeline
  stores it as the overview mapping when the step's name marks an overview builder, and
  as the data object otherwise. The two readings of \<^verbatim>\<open>func(x, **args)\<close> are the two
  fields; the first argument is \<^verbatim>\<open>self.data\<close>, which may still be \<^verbatim>\<open>None\<close>.
\<close>

record ('d, 'v) callable =
  call_data :: "'d option \<Rightarrow> (string \<times> 'v) list \<Rightarrow> string + 'd"
  call_levels :: "'d option \<Rightarrow> (string \<times> 'v) list \<Rightarrow> string + (level \<times> 'd) list"

text \<open>
  The collaborators, as parameters: \<open>'d\<close> is the type of data objects (data frames and
  arrays), \<open>'c\<close> the type of coordinates, \<open>'v\<close> the type of the opaque values that are
  only passed on (colormaps, keyword arguments of transforms). A result \<open>Inl m\<close> is an
  exception raised by the collaborator.
\<close>

record ('d, 'c, 'v) env =
  load_raster :: "string \<Rightarrow> string + 'd"
  load_vector :: "string \<Rightarrow> string + 'd"
  get_transform_by_name :: "string \<Rightarrow> string + ('d, 'v) callable"
  select_fields :: "'d \<Rightarrow> string list \<Rightarrow> string + 'd"
  is_geopandas :: "'d \<Rightarrow> bool"
  is_spatialpandas :: "'d \<Rightarrow> bool"
  to_geopandas :: "'d \<Rightarrow> string + 'd"
  total_bounds :: "'d \<Rightarrow> string \<Rightarrow> string + ('c \<times> 'c \<times> 'c \<times> 'c)"
  coord_min :: "'d \<Rightarrow> string \<Rightarrow> string + 'c"
  coord_max :: "'d \<Rightarrow> string \<Rightarrow> string + 'c"
  getcwd :: string
  isdir :: "string \<Rightarrow> bool"
  abspath :: "string \<Rightarrow> string \<Rightarrow> string"
  expanduser :: "string \<Rightarrow> string"
  dirname :: "string \<Rightarrow> string"
  isabs :: "string \<Rightarrow> bool"
  viridis :: 'v

text \<open>
  \<^item> \<open>select_fields d fs\<close> is \<^verbatim>\<open>d[fs]\<close>;
  \<^item> \<open>total_bounds d f\<close> is \<^verbatim>\<open>d[f].total_bounds\<close>;
  \<^item> \<open>coord_min d a\<close> is \<^verbatim>\<open>d.coords[a].min().compute().item()\<close>, and \<open>coord_max\<close>
    likewise;
  \<^item> \<open>abspath w p\<close> is \<^verbatim>\<open>path.abspath(p)\<close> evaluated in the working directory \<open>w\<close>;
  \<^item> \<open>isdir p\<close> tells whether \<^verbatim>\<open>os.chdir(p)\<close> succeeds;
  \<^item> \<open>viridis\<close> is \<^verbatim>\<open>colors['viridis']\<close>.
\<close>

section \<open>Source descriptors\<close>

text \<open>
  The keyword arguments of \<^verbatim>\<open>MapSource.__init__\<close>, which are also the keys of a raw
  descriptor dictionary (\<^verbatim>\<open>RasterSource(**obj)\<close>). \<open>None\<close> means that the argument is
  not passed (the key is absent), so that the default of the signature applies; an
  argument that is passed has the type its documentation gives.
\<close>

record ('d, 'v) kwargs =
  kw_name :: "string option"
  kw_description :: "string option"
  kw_filepath :: "string option"
  kw_legend :: "legend_entry list option"
  kw_config_path :: "string option"
  kw_data :: "'d option"
  kw_geometry_type :: "string option"
  kw_key :: "string option"
  kw_text :: "string option"
  kw_fields :: "string list option"
  kw_span :: "span option"
  kw_route :: "string option"
  kw_geometry_field :: "string option"
  kw_xfield :: "string option"
  kw_yfield :: "string option"
  kw_zfield :: "string option"
  kw_agg_func :: "string option"
  kw_raster_interpolate :: "string option"
  kw_shade_how :: "string option"
  kw_cmap :: "'v option"
  kw_color_key :: "'v option"
  kw_dynspread :: "int option"
  kw_extras :: "string list option"
  kw_raster_padding :: "int option"
  kw_service_types :: "string list option"
  kw_full_extent :: "number list option"
  kw_default_extent :: "number list option"
  kw_default_height :: "int option"
  kw_default_width :: "int option"
  kw_overviews :: "(level \<times> 'd) list option"
  kw_transforms :: "'v step list option"
  kw_attrs :: "'v option"
  kw_preload :: "bool option"

datatype source_class = MapSource | RasterSource | VectorSource

text \<open>
  The attributes of a source object, in the order \<^verbatim>\<open>__init__\<close> assigns them. \<open>cls\<close> is
  the class of the object. \<open>full_extent_memo\<close> is the object's entry in the table of the
  \<^verbatim>\<open>lru_cache\<close> that decorates \<^verbatim>\<open>full_extent\<close>: the table is keyed by the object, and
  \<open>None\<close> means that it has no entry for it.
\<close>

record ('d, 'c, 'v) source =
  cls :: source_class
  name :: "string option"
  description :: "string option"
  filepath :: "string option"
  config_path :: "string option"
  geometry_type :: "string option"
  key :: "string option"
  text_attr :: "string option"
  legend :: "legend_entry list option"
  fields_attr :: "string list option"
  span :: "span option"
  route :: "string option"
  xfield :: string
  raster_padding :: int
  yfield :: string
  zfield :: "string option"
  agg_func :: "string option"
  overviews :: "(level \<times> 'd) list"
  raster_agg_func :: string
  shade_how :: string
  cmap :: "'v colormap"
  color_key :: "'v option"
  dynspread :: "int option"
  extras :: "string list"
  service_types :: "string list"
  transforms :: "'v step list"
  default_extent :: "number list"
  default_width :: int
  default_height :: int
  preload :: bool
  geometry_field :: string
  is_loaded :: bool
  data :: "'d option"
  full_extent_memo :: "('c \<times> 'c \<times> 'c \<times> 'c) option"

section \<open>The constructor\<close>

text \<open>\<^verbatim>\<open>d[k] = v\<close> on a dictionary kept as an association list in insertion order: the
  value of an existing key is replaced where it stands, a new key goes to the end. Keys
  are compared with HOL's equality.\<close>

fun dict_set :: "'k \<Rightarrow> 'a \<Rightarrow> ('k \<times> 'a) list \<Rightarrow> ('k \<times> 'a) list" where
  "dict_set k v [] = [(k, v)]"
| "dict_set k v ((k', v') # kvs) =
     (if k = k' then (k', v) # kvs else (k', v') # dict_set k v kvs)"

text \<open>Lines 134 to 137: the default of \<^verbatim>\<open>fields\<close> for an in-memory
  \<^verbatim>\<open>GeoDataFrame\<close>.\<close>

definition init_fields :: "('d, 'c, 'v) env \<Rightarrow> ('d, 'v) kwargs \<Rightarrow> string \<Rightarrow> string list option" where
  "init_fields env kw geom_field =
     (if kw_fields kw = None \<and> (case kw_data kw of None \<Rightarrow> False | Some d \<Rightarrow> is_geopandas env d)
      then Some (geom_field #
                 (case kw_zfield kw of None \<Rightarrow> [] | Some z \<Rightarrow> if z \<noteq> [] then [z] else []))
      else kw_fields kw)"

text \<open>Lines 158 to 163: the loop that builds a colormap from the legend. A list or
  tuple value becomes a tuple, which \<open>LegSeq\<close> stands for in both cases.\<close>

fun legend_cmap :: "legend_entry list \<Rightarrow> (legend_value \<times> string) list
                      \<Rightarrow> error + (legend_value \<times> string) list" where
  "legend_cmap [] acc = Inr acc"
| "legend_cmap (leg # rest) acc =
     (case leg_color leg of
        None \<Rightarrow> Inl (KeyError ''color'')
      | Some cor \<Rightarrow>
          (case leg_value leg of
             None \<Rightarrow> Inl (KeyError ''value'')
           | Some val \<Rightarrow> legend_cmap rest (dict_set val cor acc)))"

text \<open>Lines 154 to 163.\<close>

definition init_cmap :: "('d, 'c, 'v) env \<Rightarrow> ('d, 'v) kwargs \<Rightarrow> error + 'v colormap" where
  "init_cmap env kw =
     (let given = Colormap (case kw_cmap kw of None \<Rightarrow> viridis env | Some c \<Rightarrow> c)
      in case kw_legend kw of
           None \<Rightarrow> Inr given
         | Some lg \<Rightarrow>
             if kw_geometry_type kw = Some ''raster'' then
               (case lg of
                  [] \<Rightarrow> Inl (IndexError ''list index out of range'')
                | leg0 # _ \<Rightarrow>
                    if leg_value leg0 \<noteq> None \<and> leg_value leg0 \<noteq> Some LegNone then
                      (case legend_cmap lg [] of
                         Inl e \<Rightarrow> Inl e
                       | Inr m \<Rightarrow> Inr (LegendMap m))
                    else Inr given)
             else Inr given)"

definition web_mercator_val :: number where
  "web_mercator_val = Decimal 200375083427892 7"

text \<open>Lines 165 to 201: the attributes as assigned, for the class \<open>c\<close>, the default of
  \<^verbatim>\<open>fields\<close> and the colormap already computed. The arguments \<^verbatim>\<open>full_extent\<close>,
  \<^verbatim>\<open>attrs\<close> and \<^verbatim>\<open>raster_padding\<close> are not stored; a fresh object has no entry in a
  memo table.\<close>

definition init_attrs :: "source_class \<Rightarrow> ('d, 'v) kwargs \<Rightarrow> string \<Rightarrow> string list option
                            \<Rightarrow> 'v colormap \<Rightarrow> ('d, 'c, 'v) source" where
  "init_attrs c kw geom_field flds cm =
     \<lparr> cls = c,
       name = kw_name kw,
       description = kw_description kw,
       filepath = kw_filepath kw,
       config_path = kw_config_path kw,
       geometry_type = kw_geometry_type kw,
       key = kw_key kw,
       text_attr = kw_text kw,
       legend = kw_legend kw,
       fields_attr = flds,
       span = kw_span kw,
       route = kw_route kw,
       xfield = (case kw_xfield kw of None \<Rightarrow> ''geometry'' | Some x \<Rightarrow> x),
       raster_padding = 0,
       yfield = (case kw_yfield kw of None \<Rightarrow> ''geometry'' | Some y \<Rightarrow> y),
       zfield = kw_zfield kw,
       agg_func = kw_agg_func kw,
       overviews = (case kw_overviews kw of None \<Rightarrow> [] | Some ov \<Rightarrow> ov),
       raster_agg_func = (case kw_raster_interpolate kw of None \<Rightarrow> ''linear'' | Some r \<Rightarrow> r),
       shade_how = (case kw_shade_how kw of None \<Rightarrow> ''linear'' | Some h \<Rightarrow> h),
       cmap = cm,
       color_key = kw_color_key kw,
       dynspread = kw_dynspread kw,
       extras = (case kw_extras kw of None \<Rightarrow> [] | Some ex \<Rightarrow> ex),
       service_types = (case kw_service_types kw of
                          None \<Rightarrow> [''tile'', ''image'', ''wms'', ''geojson'']
                        | Some sts \<Rightarrow> sts),
       transforms = (case kw_transforms kw of None \<Rightarrow> [] | Some ts \<Rightarrow> ts),
       default_extent = (case kw_default_extent kw of
                           None \<Rightarrow> [negate web_mercator_val, negate web_mercator_val,
                                     web_mercator_val, web_mercator_val]
                         | Some e \<Rightarrow> e),
       default_width = (case kw_default_width kw of None \<Rightarrow> 256 | Some w \<Rightarrow> w),
       default_height = (case kw_default_height kw of None \<Rightarrow> 256 | Some h \<Rightarrow> h),
       preload = (case kw_preload kw of None \<Rightarrow> False | Some p \<Rightarrow> p),
       geometry_field = geom_field,
       is_loaded = False,
       data = kw_data kw,
       full_extent_memo = None \<rparr>"

section \<open>The transform pipeline\<close>

text \<open>
  Lines 284 and 285: the transform is applied to every entry of the overview mapping, in
  the order of the dictionary, and each result is stored under the same key.
  \<open>replaced\<close> holds the entries already replaced. When a call raises, the entries
  replaced so far stay replaced.
\<close>

fun apply_to_overviews :: "('d, 'v) callable \<Rightarrow> (string \<times> 'v) list \<Rightarrow> (level \<times> 'd) list
        \<Rightarrow> (level \<times> 'd) list \<Rightarrow> error option \<times> (level \<times> 'd) list" where
  "apply_to_overviews func args replaced [] = (None, replaced)"
| "apply_to_overviews func args replaced ((lvl, overview_data) # rest) =
     (case call_data func (Some overview_data) args of
        Inl m \<Rightarrow> (Some (External m), replaced @ (lvl, overview_data) # rest)
      | Inr d \<Rightarrow> apply_to_overviews func args (replaced @ [(lvl, d)]) rest)"

text \<open>Lines 272 to 285: the body of the loop of \<^verbatim>\<open>_apply_transforms\<close> for one step. The
  result is the exception raised, if any, and the object as the step leaves it.\<close>

definition apply_step :: "('d, 'c, 'v) env \<Rightarrow> 'v step \<Rightarrow> ('d, 'c, 'v) source
                            \<Rightarrow> error option \<times> ('d, 'c, 'v) source" where
  "apply_step env tr s =
     (let transform_name = step_name tr
      in case get_transform_by_name env transform_name of
           Inl m \<Rightarrow> (Some (External m), s)
         | Inr func \<Rightarrow>
             (let args = (case step_args tr of None \<Rightarrow> [] | Some a \<Rightarrow> a)
              in if py_in ''overviews'' transform_name then
                   (case call_levels func (data s) args of
                      Inl m \<Rightarrow> (Some (External m), s)
                    | Inr ov \<Rightarrow> (None, s\<lparr>overviews := ov\<rparr>))
                 else
                   (case call_data func (data s) args of
                      Inl m \<Rightarrow> (Some (External m), s)
                    | Inr d \<Rightarrow>
                        (case apply_to_overviews func args [] (overviews s) of
                           (r, ov) \<Rightarrow> (r, s\<lparr>data := Some d, overviews := ov\<rparr>)))))"

fun apply_steps :: "('d, 'c, 'v) env \<Rightarrow> 'v step list \<Rightarrow> ('d, 'c, 'v) source
                      \<Rightarrow> error option \<times> ('d, 'c, 'v) source" where
  "apply_steps env [] s = (None, s)"
| "apply_steps env (tr # rest) s =
     (case apply_step env tr s of
        (Some e, s') \<Rightarrow> (Some e, s')
      | (None, s') \<Rightarrow> apply_steps env rest s')"

text \<open>\<^verbatim>\<open>_apply_transforms\<close>, lines 266 to 287 (what it prints is not modelled).\<close>

definition apply_transforms :: "('d, 'c, 'v) env \<Rightarrow> ('d, 'c, 'v) source
                                  \<Rightarrow> error option \<times> ('d, 'c, 'v) source" where
  "apply_transforms env s = apply_steps env (transforms s) s"

section \<open>Loading\<close>

text \<open>\<^verbatim>\<open>_finish_load\<close>, lines 257 to 264.\<close>

definition finish_load :: "('d, 'c, 'v) env \<Rightarrow> ('d, 'c, 'v) source
                             \<Rightarrow> error option \<times> ('d, 'c, 'v) source" where
  "finish_load env s =
     (if is_loaded s then (None, s)
      else case apply_transforms env s of
             (Some e, s') \<Rightarrow> (Some e, s')
           | (None, s') \<Rightarrow> (None, s'\<lparr>is_loaded := True\<rparr>))"

text \<open>The property \<^verbatim>\<open>load_func\<close> of the three classes.\<close>

definition load_func :: "('d, 'c, 'v) env \<Rightarrow> source_class \<Rightarrow> error + (string \<Rightarrow> string + 'd)" where
  "load_func env c =
     (case c of
        MapSource \<Rightarrow> Inl NotImplementedError
      | RasterSource \<Rightarrow> Inr (load_raster env)
      | VectorSource \<Rightarrow> Inr (load_vector env))"

text \<open>
  Lines 225 to 244, the resolution of the path. In the first branch the working
  directory is changed to the directory of the configuration file and changed back in
  the \<^verbatim>\<open>finally\<close> clause, so the working directory after the branch is the one before
  it and is not part of the state; changing back is taken to succeed.
\<close>

definition path_in_config_dir :: "('d, 'c, 'v) env \<Rightarrow> string \<Rightarrow> string option \<Rightarrow> error + string" where
  "path_in_config_dir env cp fp =
     (let ogcwd = getcwd env;
          config_dir = abspath env ogcwd (dirname env cp)
      in if \<not> isdir env config_dir then Inl (External ''os.chdir'')
         else case fp of
                None \<Rightarrow> Inl (TypeError ''expanduser'')
              | Some f \<Rightarrow> Inr (abspath env config_dir (expanduser env f)))"

definition path_of_filepath :: "('d, 'c, 'v) env \<Rightarrow> string option \<Rightarrow> error + string" where
  "path_of_filepath env fp =
     (case fp of
        None \<Rightarrow> Inl (AttributeError ''startswith'')
      | Some f \<Rightarrow>
          if prefix ''zip'' f then Inr f
          else if \<not> isabs env f then Inr (abspath env (getcwd env) (expanduser env f))
          else Inr f)"

definition data_path :: "('d, 'c, 'v) env \<Rightarrow> ('d, 'c, 'v) source \<Rightarrow> error + string" where
  "data_path env s =
     (case config_path s of
        None \<Rightarrow> path_of_filepath env (filepath s)
      | Some cp \<Rightarrow>
          if cp \<noteq> [] then path_in_config_dir env cp (filepath s)
          else path_of_filepath env (filepath s))"

text \<open>Lines 223 to 248: the data object that \<^verbatim>\<open>load\<close> starts from.\<close>

definition load_data :: "('d, 'c, 'v) env \<Rightarrow> ('d, 'c, 'v) source \<Rightarrow> error + 'd" where
  "load_data env s =
     (case data s of
        Some d \<Rightarrow> Inr d
      | None \<Rightarrow>
          (case data_path env s of
             Inl e \<Rightarrow> Inl e
           | Inr p \<Rightarrow>
               (case load_func env (cls s) of
                  Inl e \<Rightarrow> Inl e
                | Inr f \<Rightarrow> ext (f p))))"

text \<open>\<^verbatim>\<open>load\<close>, lines 216 to 255. The result \<open>(None, s')\<close> is a return (of \<^verbatim>\<open>self\<close>, whose
  state is \<open>s'\<close>), and \<open>(Some e, s')\<close> is the exception \<open>e\<close> with the object left as
  \<open>s'\<close>.\<close>

definition load :: "('d, 'c, 'v) env \<Rightarrow> ('d, 'c, 'v) source
                      \<Rightarrow> error option \<times> ('d, 'c, 'v) source" where
  "load env s =
     (if is_loaded s then (None, s)
      else case load_data env s of
             Inl e \<Rightarrow> (Some e, s)
           | Inr d \<Rightarrow>
               (case (case fields_attr s of
                        None \<Rightarrow> Inr d
                      | Some fs \<Rightarrow> if fs \<noteq> [] then ext (select_fields env d fs) else Inr d) of
                  Inl e \<Rightarrow> (Some e, s)
                | Inr d' \<Rightarrow> finish_load env (s\<lparr>data := Some d'\<rparr>)))"

text \<open>Line 204: a step is an overview builder when its name contains
  \<^verbatim>\<open>'overviews'\<close>.\<close>

definition contains_overviews :: "'v step list \<Rightarrow> bool" where
  "contains_overviews ts = (length (filter (\<lambda>t. py_in ''overviews'' (step_name t)) ts) \<noteq> 0)"

text \<open>\<^verbatim>\<open>__init__\<close>, lines 99 to 207, for an object of class \<open>c\<close>. An exception leaves no
  object behind.\<close>

definition MapSource_init :: "('d, 'c, 'v) env \<Rightarrow> source_class \<Rightarrow> ('d, 'v) kwargs
                                \<Rightarrow> error + ('d, 'c, 'v) source" where
  "MapSource_init env c kw =
     (let geom_field = (case kw_geometry_field kw of None \<Rightarrow> ''geometry'' | Some g \<Rightarrow> g);
          flds = init_fields env kw geom_field
      in if kw_span kw = Some (SpanStr ''min/max'') \<and> kw_zfield kw = None
            \<and> kw_geometry_type kw \<noteq> Some ''raster''
         then Inl (ValueError ''You must include a zfield for min/max scan calculation'')
         else case init_cmap env kw of
                Inl e \<Rightarrow> Inl e
              | Inr cm \<Rightarrow>
                  (let self = init_attrs c kw geom_field flds cm
                   in if preload self \<or> contains_overviews (transforms self) then
                        (case load env self of
                           (Some e, _) \<Rightarrow> Inl e
                         | (None, s) \<Rightarrow> Inr s)
                      else Inr self))"

section \<open>The extent\<close>

text \<open>\<^verbatim>\<open>RasterSource.full_extent\<close>, lines 321 to 324: the four items of the tuple are
  evaluated from left to right. On \<^verbatim>\<open>None\<close> the attribute \<^verbatim>\<open>coords\<close> does not
  exist.\<close>

definition raster_full_extent :: "('d, 'c, 'v) env \<Rightarrow> ('d, 'c, 'v) source
                                    \<Rightarrow> error + ('c \<times> 'c \<times> 'c \<times> 'c)" where
  "raster_full_extent env s =
     (case data s of
        None \<Rightarrow> Inl (AttributeError ''coords'')
      | Some d \<Rightarrow>
          (case ext (coord_min env d ''x'') of Inl e \<Rightarrow> Inl e | Inr x0 \<Rightarrow>
          (case ext (coord_min env d ''y'') of Inl e \<Rightarrow> Inl e | Inr y0 \<Rightarrow>
          (case ext (coord_max env d ''x'') of Inl e \<Rightarrow> Inl e | Inr x1 \<Rightarrow>
          (case ext (coord_max env d ''y'') of Inl e \<Rightarrow> Inl e | Inr y1 \<Rightarrow>
             Inr (x0, y0, x1, y1))))))"

text \<open>\<^verbatim>\<open>VectorSource.full_extent\<close>, lines 344 to 347. \<^verbatim>\<open>None\<close> is no
  \<^verbatim>\<open>spatialpandas.GeoDataFrame\<close> and cannot be subscripted.\<close>

definition vector_full_extent :: "('d, 'c, 'v) env \<Rightarrow> ('d, 'c, 'v) source
                                    \<Rightarrow> error + ('c \<times> 'c \<times> 'c \<times> 'c)" where
  "vector_full_extent env s =
     (case data s of
        None \<Rightarrow> Inl (TypeError ''NoneType is not subscriptable'')
      | Some d \<Rightarrow>
          if is_spatialpandas env d then
            (case ext (to_geopandas env d) of
               Inl e \<Rightarrow> Inl e
             | Inr g \<Rightarrow> ext (total_bounds env g (geometry_field s)))
          else ext (total_bounds env d (geometry_field s)))"

text \<open>
  The decorator \<^verbatim>\<open>@memoized()\<close> (\<^verbatim>\<open>functools.lru_cache\<close>), lines 319 and 342: a call
  for an object that has an entry returns the entry; otherwise the function runs, and
  its result is entered unless it raises.
\<close>

definition memoized :: "(('d, 'c, 'v) source \<Rightarrow> error + ('c \<times> 'c \<times> 'c \<times> 'c))
        \<Rightarrow> ('d, 'c, 'v) source \<Rightarrow> (error + ('c \<times> 'c \<times> 'c \<times> 'c)) \<times> ('d, 'c, 'v) source" where
  "memoized f s =
     (case full_extent_memo s of
        Some v \<Rightarrow> (Inr v, s)
      | None \<Rightarrow>
          (case f s of
             Inl e \<Rightarrow> (Inl e, s)
           | Inr v \<Rightarrow> (Inr v, s\<lparr>full_extent_memo := Some v\<rparr>)))"

text \<open>The property \<^verbatim>\<open>full_extent\<close> of an object; the base class does not define
  it.\<close>

definition full_extent :: "('d, 'c, 'v) env \<Rightarrow> ('d, 'c, 'v) source
        \<Rightarrow> (error + ('c \<times> 'c \<times> 'c \<times> 'c)) \<times> ('d, 'c, 'v) source" where
  "full_extent env s =
     (case cls s of
        MapSource \<Rightarrow> (Inl (AttributeError ''full_extent''), s)
      | RasterSource \<Rightarrow> memoized (raster_full_extent env) s
      | VectorSource \<Rightarrow> memoized (vector_full_extent env) s)"

section \<open>The catalog builder\<close>

text \<open>\<^verbatim>\<open>MapSource.from_obj\<close>, lines 289 to 301.\<close>

definition from_obj :: "('d, 'c, 'v) env \<Rightarrow> ('d, 'v) kwargs \<Rightarrow> error + ('d, 'c, 'v) source" where
  "from_obj env obj =
     (let has_to_vector =
            (case kw_transforms obj of
               None \<Rightarrow> False
             | Some ts \<Rightarrow>
                 if ts \<noteq> [] then
                   length (filter (\<lambda>t. step_name t = ''raster_to_categorical_points'') ts) \<noteq> 0
                 else False)
      in case kw_geometry_type obj of
           None \<Rightarrow> Inl (KeyError ''geometry_type'')
         | Some g \<Rightarrow>
             if g = ''raster'' \<or> has_to_vector then MapSource_init env RasterSource obj
             else MapSource_init env VectorSource obj)"

datatype service_class = TileService | ImageService | WMSService | GeoJSONService

text \<open>A service holds its source. The services of one descriptor hold the same source
  object; here each holds the state of that object when the service was made.\<close>

record ('d, 'c, 'v) map_service =
  svc_class :: service_class
  svc_source :: "('d, 'c, 'v) source"

fun service_type :: "service_class \<Rightarrow> string" where
  "service_type TileService = ''tile''"
| "service_type ImageService = ''image''"
| "service_type WMSService = ''wms''"
| "service_type GeoJSONService = ''geojson''"

text \<open>The dictionary \<^verbatim>\<open>service_classes\<close>, lines 783 to 788.\<close>

definition service_classes :: "string \<Rightarrow> service_class option" where
  "service_classes st =
     (if st = ''tile'' then Some TileService
      else if st = ''wms'' then Some WMSService
      else if st = ''image'' then Some ImageService
      else if st = ''geojson'' then Some GeoJSONService
      else None)"

text \<open>Line 797, \<^verbatim>\<open>contains and contains not in source.get('key')\<close>: whether the
  service is skipped. The test \<^verbatim>\<open>in\<close> raises when the key is \<^verbatim>\<open>None\<close>.\<close>

definition skip_service :: "string option \<Rightarrow> string option \<Rightarrow> error + bool" where
  "skip_service contains k =
     (case contains of
        None \<Rightarrow> Inr False
      | Some c \<Rightarrow>
          if c = [] then Inr False
          else case k of
                 None \<Rightarrow> Inl (TypeError ''argument of type NoneType is not iterable'')
               | Some k' \<Rightarrow> Inr (\<not> py_in c k'))"

text \<open>Lines 794 to 804 without line 795: the inner loop over the declared service types
  of one descriptor whose key is \<open>k\<close>. The result is the list of services yielded, and
  the exception that ends the generator, if any.\<close>

fun make_services :: "('d, 'c, 'v) source \<Rightarrow> string option \<Rightarrow> string option \<Rightarrow> string list
        \<Rightarrow> ('d, 'c, 'v) map_service list \<times> error option" where
  "make_services source_obj k contains [] = ([], None)"
| "make_services source_obj k contains (st # rest) =
     (case skip_service contains k of
        Inl e \<Rightarrow> ([], Some e)
      | Inr skip \<Rightarrow>
          if skip then make_services source_obj k contains rest
          else (case service_classes st of
                  None \<Rightarrow> ([], Some (KeyError st))
                | Some klass \<Rightarrow>
                    (case make_services source_obj k contains rest of
                       (ys, e) \<Rightarrow> (\<lparr>svc_class = klass, svc_source = source_obj\<rparr> # ys, e))))"

text \<open>
  \<^verbatim>\<open>parse_sources\<close>, lines 769 to 804, run to its end. The raw descriptors are
  dictionaries that the function changes (line 795), and one dictionary may occur in
  the list more than once: \<open>h\<close> is the store, from addresses to dictionaries, and
  \<open>source_objs\<close> is the list of the addresses. The result is the list of services
  yielded, the exception that ends the generator, if any, and the store it leaves.
  Line 795 runs in every round of the inner loop, so it takes effect when the
  descriptor declares at least one service type.
\<close>

fun parse_sources :: "('d, 'c, 'v) env \<Rightarrow> (nat \<Rightarrow> ('d, 'v) kwargs) \<Rightarrow> nat list
        \<Rightarrow> string option \<Rightarrow> string option
        \<Rightarrow> ('d, 'c, 'v) map_service list \<times> error option \<times> (nat \<Rightarrow> ('d, 'v) kwargs)" where
  "parse_sources env h [] cfg contains = ([], None, h)"
| "parse_sources env h (r # source_objs) cfg contains =
     (case from_obj env (h r) of
        Inl e \<Rightarrow> ([], Some e, h)
      | Inr source_obj \<Rightarrow>
          (case kw_service_types (h r) of
             None \<Rightarrow> ([], Some (KeyError ''service_types''), h)
           | Some sts \<Rightarrow>
               (let h' = (if sts = [] then h else h(r := (h r)\<lparr>kw_config_path := cfg\<rparr>))
                in case make_services source_obj (kw_key (h r)) contains sts of
                     (ys, Some e) \<Rightarrow> (ys, Some e, h')
                   | (ys, None) \<Rightarrow>
                       (case parse_sources env h' source_objs cfg contains of
                          (zs, e, h'') \<Rightarrow> (ys @ zs, e, h'')))))"

section \<open>An environment and descriptors for the examples\<close>

text \<open>
  In the examples a data object is a natural number and a coordinate an integer. The
  raster loader returns the object 100 and the vector loader the object 200; the
  registry knows a transform that adds one to the object, and an overview builder that
  makes the two levels \<^verbatim>\<open>'0'\<close> and \<^verbatim>\<open>'1'\<close> from it. Paths are POSIX paths.
\<close>

definition reproject_vector :: "(nat, nat) callable" where
  "reproject_vector =
     \<lparr> call_data = (\<lambda>d args. case d of None \<Rightarrow> Inl ''no data'' | Some x \<Rightarrow> Inr (x + 1)),
       call_levels = (\<lambda>d args. Inl ''no level mapping'') \<rparr>"

definition build_vector_overviews :: "(nat, nat) callable" where
  "build_vector_overviews =
     \<lparr> call_data = (\<lambda>d args. Inl ''no data object''),
       call_levels = (\<lambda>d args. case d of
                         None \<Rightarrow> Inl ''no data''
                       | Some x \<Rightarrow> Inr [(LevelStr ''0'', 10 * x), (LevelStr ''1'', 10 * x + 1)]) \<rparr>"

definition example_registry :: "string \<Rightarrow> string + (nat, nat) callable" where
  "example_registry n =
     (if n = ''reproject_vector'' then Inr reproject_vector
      else if n = ''build_vector_overviews'' then Inr build_vector_overviews
      else Inl ''unknown transform'')"

definition example_env :: "(nat, int, nat) env" where
  "example_env =
     \<lparr> load_raster = (\<lambda>p. Inr 100),
       load_vector = (\<lambda>p. Inr 200),
       get_transform_by_name = example_registry,
       select_fields = (\<lambda>d fs. Inr d),
       is_geopandas = (\<lambda>d. d < 1000),
       is_spatialpandas = (\<lambda>d. 1000 \<le> d),
       to_geopandas = (\<lambda>d. Inr (d - 1000)),
       total_bounds = (\<lambda>d f. Inr (- int d, - int d, int d, int d)),
       coord_min = (\<lambda>d a. Inr (- int d)),
       coord_max = (\<lambda>d a. Inr (int d)),
       getcwd = ''/srv'',
       isdir = (\<lambda>p. True),
       abspath = (\<lambda>w p. if prefix ''/'' p then p else w @ ''/'' @ p),
       expanduser = (\<lambda>p. p),
       dirname = (\<lambda>p. rev (drop 1 (dropWhile (\<lambda>c. c \<noteq> CHR ''/'') (rev p)))),
       isabs = (\<lambda>p. prefix ''/'' p),
       viridis = 0 \<rparr>"

text \<open>The call without any keyword argument.\<close>

definition no_kwargs :: "(nat, nat) kwargs" where
  "no_kwargs =
     \<lparr> kw_name = None, kw_description = None, kw_filepath = None, kw_legend = None,
       kw_config_path = None, kw_data = None, kw_geometry_type = None, kw_key = None,
       kw_text = None, kw_fields = None, kw_span = None, kw_route = None,
       kw_geometry_field = None, kw_xfield = None, kw_yfield = None, kw_zfield = None,
       kw_agg_func = None, kw_raster_interpolate = None, kw_shade_how = None,
       kw_cmap = None, kw_color_key = None, kw_dynspread = None, kw_extras = None,
       kw_raster_padding = None, kw_service_types = None, kw_full_extent = None,
       kw_default_extent = None, kw_default_height = None, kw_default_width = None,
       kw_overviews = None, kw_transforms = None, kw_attrs = None, kw_preload = None \<rparr>"

definition plain_step :: "string \<Rightarrow> nat step" where
  "plain_step n = \<lparr>step_name = n, step_args = None\<rparr>"

text \<open>A descriptor with an overview builder among its transforms, and one without.\<close>

definition countries :: "(nat, nat) kwargs" where
  "countries = no_kwargs
     \<lparr> kw_name := Some ''World Countries'',
       kw_filepath := Some ''data/countries.shp'',
       kw_geometry_type := Some ''polygon'',
       kw_key := Some ''world-countries'',
       kw_span := Some (SpanStr ''min/max''),
       kw_zfield := Some ''pop_est'',
       kw_service_types := Some [''tile'', ''wms'', ''image'', ''geojson''],
       kw_transforms := Some [plain_step ''reproject_vector'',
                              plain_step ''build_vector_overviews'',
                              plain_step ''reproject_vector''] \<rparr>"

definition boroughs :: "(nat, nat) kwargs" where
  "boroughs = no_kwargs
     \<lparr> kw_name := Some ''NYC Admin'',
       kw_filepath := Some ''data/nybb.shp'',
       kw_geometry_type := Some ''polygon'',
       kw_key := Some ''nyc-boroughs'',
       kw_span := Some (SpanStr ''min/max''),
       kw_zfield := Some ''BoroCode'',
       kw_service_types := Some [''tile'', ''wms'', ''image'', ''geojson''],
       kw_transforms := Some [plain_step ''reproject_vector''] \<rparr>"

text \<open>The object that the constructor assigns for \<open>countries\<close> before it loads, and
  the object after loading: the vector loader gives 200, the first transform 201, the
  overview builder the levels 2010 and 2011, and the last transform adds one to the
  data object and to both levels.\<close>

definition countries_unloaded :: "(nat, int, nat) source" where
  "countries_unloaded = init_attrs VectorSource countries ''geometry'' None (Colormap 0)"

definition countries_loaded :: "(nat, int, nat) source" where
  "countries_loaded = countries_unloaded
     \<lparr> data := Some 202,
       overviews := [(LevelStr ''0'', 2011), (LevelStr ''1'', 2012)],
       is_loaded := True \<rparr>"

text \<open>
  A descriptor with an in-memory data object, the object 7, which the example
  environment takes for a \<^verbatim>\<open>GeoDataFrame\<close>: the object as constructed, the object after
  its extent has been requested, and that object after \<^verbatim>\<open>load\<close>, which turns the data
  object into 8.
\<close>

definition cities :: "(nat, nat) kwargs" where
  "cities = no_kwargs
     \<lparr> kw_name := Some ''World Cities'',
       kw_data := Some 7,
       kw_geometry_type := Some ''point'',
       kw_key := Some ''world-cities'',
       kw_service_types := Some [''tile'', ''geojson''],
       kw_transforms := Some [plain_step ''reproject_vector''] \<rparr>"

definition cities_fresh :: "(nat, int, nat) source" where
  "cities_fresh = init_attrs VectorSource cities ''geometry'' (Some [''geometry'']) (Colormap 0)"

definition cities_asked :: "(nat, int, nat) source" where
  "cities_asked = cities_fresh\<lparr>full_extent_memo := Some (- 7, - 7, 7, 7)\<rparr>"

definition cities_stale :: "(nat, int, nat) source" where
  "cities_stale = cities_asked\<lparr>data := Some 8, is_loaded := True\<rparr>"

text \<open>
  A raster descriptor, and a catalog of two raw descriptors: the store holds the
  boroughs at address 0 and the elevation at every other address. \<open>catalog_services\<close>
  and \<open>catalog_after\<close> are what the catalog builder yields for the addresses 0 and 1
  and the store it leaves, when it is called with the configuration path
  \<open>site_config\<close>.
\<close>

definition elevation :: "(nat, nat) kwargs" where
  "elevation = no_kwargs
     \<lparr> kw_name := Some ''Elevation'',
       kw_filepath := Some ''/data/elevation.tif'',
       kw_geometry_type := Some ''raster'',
       kw_key := Some ''elevation'',
       kw_span := Some (SpanTuple [58, 248]),
       kw_raster_padding := Some 0,
       kw_service_types := Some [''tile'', ''wms'', ''image'', ''geojson''],
       kw_transforms := Some [] \<rparr>"

definition site_config :: string where
  "site_config = ''/etc/mapshader/site.yaml''"

definition catalog :: "nat \<Rightarrow> (nat, nat) kwargs" where
  "catalog a = (if a = 0 then boroughs else elevation)"

definition boroughs_source :: "(nat, int, nat) source" where
  "boroughs_source = init_attrs VectorSource boroughs ''geometry'' None (Colormap 0)"

definition elevation_source :: "(nat, int, nat) source" where
  "elevation_source = init_attrs RasterSource elevation ''geometry'' None (Colormap 0)"

definition services_of :: "(nat, int, nat) source \<Rightarrow> (nat, int, nat) map_service list" where
  "services_of src =
     map (\<lambda>k. \<lparr>svc_class = k, svc_source = src\<rparr>)
       [TileService, WMSService, ImageService, GeoJSONService]"

definition catalog_services :: "(nat, int, nat) map_service list" where
  "catalog_services = services_of boroughs_source @ services_of elevation_source"

definition catalog_after :: "nat \<Rightarrow> (nat, nat) kwargs" where
  "catalog_after = catalog
     (0 := boroughs\<lparr>kw_config_path := Some site_config\<rparr>,
      1 := elevation\<lparr>kw_config_path := Some site_config\<rparr>)"

section \<open>The pipeline as the specification words it\<close>

text \<open>
  The specification describes the pipeline as follows. For each declared step, in
  declared order: resolve the name in the registry; if the name indicates an overview
  builder, invoke it with the current primary data object and the arguments of the step,
  and its result replaces the overview mapping wholesale; otherwise invoke the transform
  with the current primary data object and the arguments, replace the primary data
  object with the result, then invoke the same transform with the same arguments on
  every existing entry of the overview mapping and replace each entry. A failure aborts
  the pipeline. The state of the description is the pair of the primary data object and
  the overview mapping.
\<close>

fun spec_replace_each :: "('d, 'v) callable \<Rightarrow> (string \<times> 'v) list \<Rightarrow> (level \<times> 'd) list
        \<Rightarrow> error + (level \<times> 'd) list" where
  "spec_replace_each f a [] = Inr []"
| "spec_replace_each f a ((k, v) # entries) =
     (case call_data f (Some v) a of
        Inl m \<Rightarrow> Inl (External m)
      | Inr v' \<Rightarrow>
          (case spec_replace_each f a entries of
             Inl e \<Rightarrow> Inl e
           | Inr entries' \<Rightarrow> Inr ((k, v') # entries')))"

fun spec_step :: "('d, 'c, 'v) env \<Rightarrow> 'v step \<Rightarrow> 'd option \<times> (level \<times> 'd) list
        \<Rightarrow> error + 'd option \<times> (level \<times> 'd) list" where
  "spec_step env st (primary, levels) =
     (case get_transform_by_name env (step_name st) of
        Inl m \<Rightarrow> Inl (External m)
      | Inr f \<Rightarrow>
          (let a = (case step_args st of None \<Rightarrow> [] | Some x \<Rightarrow> x)
           in if py_in ''overviews'' (step_name st) then
                (case call_levels f primary a of
                   Inl m \<Rightarrow> Inl (External m)
                 | Inr built \<Rightarrow> Inr (primary, built))
              else
                (case call_data f primary a of
                   Inl m \<Rightarrow> Inl (External m)
                 | Inr primary' \<Rightarrow>
                     (case spec_replace_each f a levels of
                        Inl e \<Rightarrow> Inl e
                      | Inr levels' \<Rightarrow> Inr (Some primary', levels')))))"

fun spec_pipeline :: "('d, 'c, 'v) env \<Rightarrow> 'v step list \<Rightarrow> 'd option \<times> (level \<times> 'd) list
        \<Rightarrow> error + 'd option \<times> (level \<times> 'd) list" where
  "spec_pipeline env [] state = Inr state"
| "spec_pipeline env (st # steps) state =
     (case spec_step env st state of
        Inl e \<Rightarrow> Inl e
      | Inr state' \<Rightarrow> spec_pipeline env steps state')"

section \<open>The extent as the specification words it\<close>

text \<open>
  For a raster the extent is the tuple (min x, min y, max x, max y) of the two spatial
  axes of the coordinate grid. For a vector source it is the union bounding box of all
  geometries in the active geometry field, and a columnar store is converted to a
  row-wise view first. Minimum, maximum, conversion and bounding box are the
  collaborators' operations.
\<close>

definition spec_raster_extent :: "('d, 'c, 'v) env \<Rightarrow> 'd \<Rightarrow> error + ('c \<times> 'c \<times> 'c \<times> 'c)" where
  "spec_raster_extent env grid =
     (case coord_min env grid ''x'' of Inl m \<Rightarrow> Inl (External m) | Inr min_x \<Rightarrow>
     (case coord_min env grid ''y'' of Inl m \<Rightarrow> Inl (External m) | Inr min_y \<Rightarrow>
     (case coord_max env grid ''x'' of Inl m \<Rightarrow> Inl (External m) | Inr max_x \<Rightarrow>
     (case coord_max env grid ''y'' of Inl m \<Rightarrow> Inl (External m) | Inr max_y \<Rightarrow>
        Inr (min_x, min_y, max_x, max_y)))))"

definition spec_vector_extent :: "('d, 'c, 'v) env \<Rightarrow> 'd \<Rightarrow> string \<Rightarrow> error + ('c \<times> 'c \<times> 'c \<times> 'c)" where
  "spec_vector_extent env store field =
     (if is_spatialpandas env store then
        (case to_geopandas env store of
           Inl m \<Rightarrow> Inl (External m)
         | Inr rows \<Rightarrow> ext (total_bounds env rows field))
      else ext (total_bounds env store field))"

section \<open>The catalog as the specification words it\<close>

text \<open>The service types that the descriptors at the addresses \<open>rs\<close> declare, one after
  the other; and the test whether the key of the descriptor of a service contains the
  filter string.\<close>

definition declared_types :: "(nat \<Rightarrow> ('d, 'v) kwargs) \<Rightarrow> nat list \<Rightarrow> string list" where
  "declared_types h rs =
     concat (map (\<lambda>r. case kw_service_types (h r) of None \<Rightarrow> [] | Some sts \<Rightarrow> sts) rs)"

definition key_contains :: "string \<Rightarrow> ('d, 'c, 'v) map_service \<Rightarrow> bool" where
  "key_contains c y = (case key (svc_source y) of None \<Rightarrow> False | Some k \<Rightarrow> py_in c k)"

section \<open>Evaluation of the examples\<close>

lemmas example_defs = example_env_def example_registry_def reproject_vector_def
  build_vector_overviews_def no_kwargs_def countries_def boroughs_def plain_step_def
  countries_unloaded_def countries_loaded_def

lemmas model_defs = MapSource_init_def init_fields_def init_cmap_def init_attrs_def
  contains_overviews_def load_def load_data_def data_path_def path_of_filepath_def
  path_in_config_dir_def load_func_def finish_load_def apply_transforms_def apply_step_def
  ext_def Let_def sublist_code prefix_code

lemmas more_defs = cities_def cities_fresh_def cities_asked_def cities_stale_def

lemmas extent_defs = full_extent_def memoized_def raster_full_extent_def vector_full_extent_def

lemma load_countries: "load example_env countries_unloaded = (None, countries_loaded)"
  by (simp add: model_defs example_defs)

lemma init_countries: "MapSource_init example_env VectorSource countries = Inr countries_loaded"
  by (simp add: model_defs example_defs)

lemma init_cities: "MapSource_init example_env VectorSource cities = Inr cities_fresh"
  by (simp add: model_defs example_defs more_defs)

lemma ask_cities: "full_extent example_env cities_fresh = (Inr (- 7, - 7, 7, 7), cities_asked)"
  by (simp add: extent_defs init_attrs_def ext_def example_defs more_defs)

lemma load_cities: "load example_env cities_asked = (None, cities_stale)"
  by (simp add: model_defs example_defs more_defs)

lemmas catalog_defs = elevation_def site_config_def catalog_def boroughs_source_def
  elevation_source_def services_of_def catalog_services_def catalog_after_def

lemmas builder_defs = from_obj_def service_classes_def skip_service_def

lemma from_obj_boroughs: "from_obj example_env boroughs = Inr boroughs_source"
  by (simp add: builder_defs model_defs example_defs catalog_defs)

lemma from_obj_elevation: "from_obj example_env elevation = Inr elevation_source"
  by (simp add: builder_defs model_defs example_defs catalog_defs)

lemma boroughs_facts:
  "kw_service_types boroughs = Some [''tile'', ''wms'', ''image'', ''geojson'']"
  "kw_key boroughs = Some ''nyc-boroughs''"
  by (simp_all add: boroughs_def no_kwargs_def)

lemma elevation_facts:
  "kw_service_types elevation = Some [''tile'', ''wms'', ''image'', ''geojson'']"
  "kw_key elevation = Some ''elevation''"
  by (simp_all add: elevation_def no_kwargs_def)

lemma run_catalog:
  "parse_sources example_env catalog [0, 1] (Some site_config) None
     = (catalog_services, None, catalog_after)"
  by (simp add: catalog_def from_obj_boroughs from_obj_elevation boroughs_facts elevation_facts
        catalog_after_def catalog_services_def services_of_def service_classes_def
        skip_service_def Let_def)

section \<open>What loading changes\<close>

lemma apply_step_frame:
  "apply_step env tr s = (r, s') \<Longrightarrow> s' = s\<lparr>data := data s', overviews := overviews s'\<rparr>"
  unfolding apply_step_def Let_def
  by (auto split: sum.splits if_splits prod.splits)

lemma apply_steps_frame:
  "apply_steps env ts s = (r, s') \<Longrightarrow> s' = s\<lparr>data := data s', overviews := overviews s'\<rparr>"
proof (induction ts arbitrary: s)
  case Nil
  then show ?case by simp
next
  case (Cons t ts)
  obtain r1 s1 where st: "apply_step env t s = (r1, s1)"
    by (cases "apply_step env t s")
  have f1: "s1 = s\<lparr>data := data s1, overviews := overviews s1\<rparr>"
    using apply_step_frame [OF st] .
  show ?case
  proof (cases r1)
    case None
    with st Cons.prems have "apply_steps env ts s1 = (r, s')" by simp
    from Cons.IH [OF this] have "s' = s1\<lparr>data := data s', overviews := overviews s'\<rparr>" .
    then have "s' = (s\<lparr>data := data s1, overviews := overviews s1\<rparr>)
                       \<lparr>data := data s', overviews := overviews s'\<rparr>"
      using f1 by simp
    then show ?thesis by simp
  next
    case (Some e)
    with st Cons.prems have "s' = s1" by simp
    with f1 show ?thesis by simp
  qed
qed

lemma load_frame:
  "load env s = (r, s') \<Longrightarrow>
     s' = s\<lparr>data := data s', overviews := overviews s', is_loaded := is_loaded s'\<rparr>"
  unfolding load_def finish_load_def apply_transforms_def
  by (auto split: sum.splits if_splits prod.splits option.splits dest!: apply_steps_frame)

section \<open>The padding attribute\<close>

lemma frame_raster_padding:
  "s' = s\<lparr>data := d, overviews := ov, is_loaded := l\<rparr> \<Longrightarrow> raster_padding s' = raster_padding s"
  by simp

text \<open>
  Claim C10. Whenever the constructor returns an object, the attribute
  \<^verbatim>\<open>raster_padding\<close> of that object is 0, whatever was passed as the argument
  \<^verbatim>\<open>raster_padding\<close> (line 181 assigns the constant, and loading during construction
  does not touch the attribute).
\<close>

theorem raster_padding_is_zero:
  "MapSource_init env c kw = Inr s \<Longrightarrow> raster_padding s = 0"
proof -
  assume a: "MapSource_init env c kw = Inr s"
  define geom where "geom = (case kw_geometry_field kw of None \<Rightarrow> ''geometry'' | Some g \<Rightarrow> g)"
  from a obtain cm where s_cases:
    "s = init_attrs c kw geom (init_fields env kw geom) cm
     \<or> (\<exists>r. load env (init_attrs c kw geom (init_fields env kw geom) cm) = (r, s))"
    unfolding MapSource_init_def Let_def geom_def
    by (auto split: if_splits sum.splits prod.splits option.splits)
  have z: "raster_padding
             (init_attrs c kw geom (init_fields env kw geom) cm :: ('a, 'b, 'c) source) = 0"
    by (simp add: init_attrs_def)
  from s_cases show ?thesis
  proof
    assume "s = init_attrs c kw geom (init_fields env kw geom) cm"
    with z show ?thesis by simp
  next
    assume "\<exists>r. load env (init_attrs c kw geom (init_fields env kw geom) cm) = (r, s)"
    then obtain r where
      "load env (init_attrs c kw geom (init_fields env kw geom) cm) = (r, s)" ..
    from load_frame [OF this]
    have "raster_padding s = raster_padding
            (init_attrs c kw geom (init_fields env kw geom) cm :: ('a, 'b, 'c) source)"
      by (rule frame_raster_padding)
    with z show ?thesis by simp
  qed
qed

text \<open>The constructor called with \<^verbatim>\<open>raster_padding=5\<close> returns an object whose padding
  is 0.\<close>

theorem raster_padding_is_zero_witness:
  "MapSource_init example_env RasterSource (no_kwargs\<lparr>kw_raster_padding := Some 5\<rparr>)
     = Inr (init_attrs RasterSource (no_kwargs\<lparr>kw_raster_padding := Some 5\<rparr>)
              ''geometry'' None (Colormap 0))
   \<and> raster_padding
        (init_attrs RasterSource (no_kwargs\<lparr>kw_raster_padding := Some 5\<rparr>)
           ''geometry'' None (Colormap 0) :: (nat, int, nat) source) = 0"
proof -
  have h: "MapSource_init example_env RasterSource (no_kwargs\<lparr>kw_raster_padding := Some 5\<rparr>)
     = Inr (init_attrs RasterSource (no_kwargs\<lparr>kw_raster_padding := Some 5\<rparr>)
              ''geometry'' None (Colormap 0))"
    by (simp add: MapSource_init_def init_fields_def init_cmap_def init_attrs_def
          contains_overviews_def no_kwargs_def example_env_def)
  show ?thesis using h raster_padding_is_zero [OF h] by simp
qed

section \<open>The pipeline against its description\<close>

lemma apply_to_overviews_spec:
  "(case spec_replace_each f a ov of
      Inl e \<Rightarrow> fst (apply_to_overviews f a acc ov) = Some e
    | Inr ov' \<Rightarrow> apply_to_overviews f a acc ov = (None, acc @ ov'))"
proof (induction ov arbitrary: acc)
  case Nil
  show ?case by simp
next
  case (Cons kv ov)
  obtain k v where kv: "kv = (k, v)" by (cases kv)
  show ?case
  proof (cases "call_data f (Some v) a")
    case (Inl m)
    with kv show ?thesis by simp
  next
    case (Inr v')
    from Cons.IH [of "acc @ [(k, v')]"] Inr kv show ?thesis
      by (cases "spec_replace_each f a ov") simp_all
  qed
qed

lemma apply_step_spec:
  "(case spec_step env t (data s, overviews s) of
      Inl e \<Rightarrow> fst (apply_step env t s) = Some e
    | Inr (d, ov) \<Rightarrow> apply_step env t s = (None, s\<lparr>data := d, overviews := ov\<rparr>))"
proof (cases "get_transform_by_name env (step_name t)")
  case (Inl m)
  then show ?thesis by (simp add: apply_step_def)
next
  case (Inr f)
  define a where "a = (case step_args t of None \<Rightarrow> [] | Some x \<Rightarrow> x)"
  show ?thesis
  proof (cases "py_in ''overviews'' (step_name t)")
    case True
    with Inr show ?thesis
      by (cases "call_levels f (data s) a") (simp_all add: apply_step_def a_def)
  next
    case False
    show ?thesis
    proof (cases "call_data f (data s) a")
      case (Inl m)
      with Inr False show ?thesis by (simp add: apply_step_def a_def)
    next
      case d: (Inr d)
      show ?thesis
      proof (cases "spec_replace_each f a (overviews s)")
        case e: (Inl e)
        with apply_to_overviews_spec [where f = f and a = a and ov = "overviews s" and acc = "[]"]
        have "fst (apply_to_overviews f a [] (overviews s)) = Some e" by simp
        with Inr False d e show ?thesis
          by (auto simp: apply_step_def a_def split: prod.splits)
      next
        case ov: (Inr ov')
        with apply_to_overviews_spec [where f = f and a = a and ov = "overviews s" and acc = "[]"]
        have "apply_to_overviews f a [] (overviews s) = (None, ov')" by simp
        with Inr False d ov show ?thesis
          by (simp add: apply_step_def a_def)
      qed
    qed
  qed
qed

lemma apply_steps_spec:
  "(case spec_pipeline env ts (data s, overviews s) of
      Inl e \<Rightarrow> fst (apply_steps env ts s) = Some e
    | Inr (d, ov) \<Rightarrow> apply_steps env ts s = (None, s\<lparr>data := d, overviews := ov\<rparr>))"
proof (induction ts arbitrary: s)
  case Nil
  show ?case by simp
next
  case (Cons t ts)
  show ?case
  proof (cases "spec_step env t (data s, overviews s)")
    case (Inl e)
    with apply_step_spec [of env t s] show ?thesis
      by (cases "apply_step env t s") (auto split: option.splits)
  next
    case (Inr st')
    obtain d ov where st': "st' = (d, ov)" by (cases st')
    with Inr apply_step_spec [of env t s]
    have step: "apply_step env t s = (None, s\<lparr>data := d, overviews := ov\<rparr>)" by simp
    from Cons.IH [of "s\<lparr>data := d, overviews := ov\<rparr>"] Inr st' step show ?thesis
      by (cases "spec_pipeline env ts (d, ov)") (auto split: prod.splits)
  qed
qed

text \<open>
  Claim C1. \<^verbatim>\<open>_apply_transforms\<close> does what the description says, for every declared
  list of steps, every registry and every object: when the described pipeline ends with
  a primary data object and an overview mapping, the method returns and leaves exactly
  these two in the object, everything else unchanged; when the described pipeline
  fails, the method raises the same exception. The description processes the steps in
  declared order, lets the result of an overview builder replace the whole overview
  mapping, and lets every other step replace the primary data object and then every
  entry of the overview mapping by the result of the same transform with the same
  arguments.
\<close>

theorem pipeline_refines_description:
  "(case spec_pipeline env (transforms s) (data s, overviews s) of
      Inl e \<Rightarrow> fst (apply_transforms env s) = Some e
    | Inr (d, ov) \<Rightarrow> apply_transforms env s = (None, s\<lparr>data := d, overviews := ov\<rparr>))"
  unfolding apply_transforms_def by (rule apply_steps_spec)

text \<open>The three steps of \<open>countries\<close>, run on the object 200 that the loader gives.\<close>

theorem pipeline_refines_description_witness:
  "spec_pipeline example_env (transforms (countries_unloaded\<lparr>data := Some 200\<rparr>))
       (data (countries_unloaded\<lparr>data := Some 200\<rparr>),
        overviews (countries_unloaded\<lparr>data := Some 200\<rparr>))
     = Inr (Some 202, [(LevelStr ''0'', 2011), (LevelStr ''1'', 2012)])
   \<and> apply_transforms example_env (countries_unloaded\<lparr>data := Some 200\<rparr>)
     = (None, countries_unloaded
          \<lparr>data := Some 202, overviews := [(LevelStr ''0'', 2011), (LevelStr ''1'', 2012)]\<rparr>)"
proof -
  have h: "spec_pipeline example_env (transforms (countries_unloaded\<lparr>data := Some 200\<rparr>))
       (data (countries_unloaded\<lparr>data := Some 200\<rparr>),
        overviews (countries_unloaded\<lparr>data := Some 200\<rparr>))
     = Inr (Some 202, [(LevelStr ''0'', 2011), (LevelStr ''1'', 2012)])"
    by (simp add: init_attrs_def example_defs Let_def sublist_code prefix_code)
  show ?thesis
    using h pipeline_refines_description
              [of example_env "countries_unloaded\<lparr>data := Some 200\<rparr>"]
    by simp
qed

section \<open>Loading once\<close>

lemma load_returns_loaded: "load env s = (None, s') \<Longrightarrow> is_loaded s'"
  unfolding load_def finish_load_def
  by (auto split: if_splits sum.splits option.splits prod.splits)

text \<open>
  Claim C2. \<^verbatim>\<open>load\<close> is idempotent: on an object that is already loaded it returns
  the object as it is, and after a call of \<^verbatim>\<open>load\<close> that has returned, a second call
  returns the same object with the same data object and the same overview mapping (and
  every other attribute unchanged).
\<close>

theorem load_idempotent:
  "(is_loaded s \<longrightarrow> load env s = (None, s))
   \<and> (load env s = (None, s') \<longrightarrow> load env s' = (None, s'))"
proof
  show "is_loaded s \<longrightarrow> load env s = (None, s)" by (simp add: load_def)
  show "load env s = (None, s') \<longrightarrow> load env s' = (None, s')"
  proof
    assume "load env s = (None, s')"
    then have "is_loaded s'" by (rule load_returns_loaded)
    then show "load env s' = (None, s')" by (simp add: load_def)
  qed
qed

text \<open>The first call loads \<open>countries\<close>, the second changes nothing.\<close>

theorem load_idempotent_witness:
  "is_loaded countries_loaded
   \<and> load example_env countries_unloaded = (None, countries_loaded)
   \<and> load example_env countries_loaded = (None, countries_loaded)"
proof -
  have l: "is_loaded countries_loaded" by (simp add: countries_loaded_def)
  have h: "load example_env countries_unloaded = (None, countries_loaded)"
    by (rule load_countries)
  show ?thesis
    using l h load_idempotent [of countries_unloaded example_env countries_loaded]
      load_idempotent [of countries_loaded example_env countries_loaded]
    by simp
qed

section \<open>Exceptions of the constructor\<close>

text \<open>Loading raises no \<^verbatim>\<open>ValueError\<close> of the module, and neither does the legend
  block.\<close>

lemma ext_error: "ext r = Inl e \<Longrightarrow> \<exists>m. e = External m"
  by (auto simp: ext_def split: sum.splits)

lemma apply_to_overviews_error:
  "apply_to_overviews func args acc ov = (Some e, r) \<Longrightarrow> \<exists>m. e = External m"
  by (induction func args acc ov rule: apply_to_overviews.induct) (auto split: sum.splits)

lemma apply_step_error:
  "apply_step env tr s = (Some e, s') \<Longrightarrow> \<exists>m. e = External m"
  unfolding apply_step_def Let_def
  by (auto split: sum.splits if_splits prod.splits dest: apply_to_overviews_error)

lemma apply_steps_error:
  "apply_steps env ts s = (Some e, s') \<Longrightarrow> \<exists>m. e = External m"
proof (induction ts arbitrary: s)
  case Nil
  then show ?case by simp
next
  case (Cons t ts)
  obtain r1 s1 where st: "apply_step env t s = (r1, s1)"
    by (cases "apply_step env t s")
  show ?case
  proof (cases r1)
    case None
    with st Cons.prems have "apply_steps env ts s1 = (Some e, s')" by simp
    then show ?thesis by (rule Cons.IH)
  next
    case (Some e1)
    with st Cons.prems have "e = e1" by simp
    with st Some show ?thesis by (auto dest: apply_step_error)
  qed
qed

lemma data_path_error: "data_path env s = Inl e \<Longrightarrow> \<forall>m. e \<noteq> ValueError m"
  unfolding data_path_def path_in_config_dir_def path_of_filepath_def Let_def
  by (auto split: option.splits if_splits)

lemma load_data_error: "load_data env s = Inl e \<Longrightarrow> \<forall>m. e \<noteq> ValueError m"
  unfolding load_data_def load_func_def
  by (auto split: option.splits sum.splits source_class.splits dest: data_path_error ext_error)

lemma load_error: "load env s = (Some e, s') \<Longrightarrow> \<forall>m. e \<noteq> ValueError m"
  unfolding load_def finish_load_def apply_transforms_def
  by (auto split: if_splits sum.splits option.splits prod.splits
           dest: load_data_error ext_error apply_steps_error)

lemma legend_cmap_error: "legend_cmap lg acc = Inl e \<Longrightarrow> \<exists>k. e = KeyError k"
  by (induction lg acc rule: legend_cmap.induct) (auto split: option.splits)

lemma init_cmap_error: "init_cmap env kw = Inl e \<Longrightarrow> \<forall>m. e \<noteq> ValueError m"
  unfolding init_cmap_def Let_def
  by (auto split: option.splits if_splits list.splits sum.splits dest: legend_cmap_error)

text \<open>
  Claim C6, amended. The constructor raises the \<^verbatim>\<open>ValueError\<close> that asks for a
  \<^verbatim>\<open>zfield\<close> exactly when \<^verbatim>\<open>span\<close> is the string \<^verbatim>\<open>'min/max'\<close>, no \<^verbatim>\<open>zfield\<close> is
  given and the geometry type is not \<^verbatim>\<open>'raster'\<close>. So the declaration with the
  geometry type \<^verbatim>\<open>'raster'\<close>, or with a \<^verbatim>\<open>zfield\<close>, does not raise it.
\<close>

theorem zfield_required_iff:
  "(MapSource_init env c kw
      = Inl (ValueError ''You must include a zfield for min/max scan calculation''))
   = (kw_span kw = Some (SpanStr ''min/max'') \<and> kw_zfield kw = None
        \<and> kw_geometry_type kw \<noteq> Some ''raster'')"
  unfolding MapSource_init_def Let_def
  by (auto split: sum.splits prod.splits option.splits dest: init_cmap_error load_error)

text \<open>The boroughs without their \<^verbatim>\<open>zfield\<close> are refused; with it, or as a raster, they
  are not.\<close>

theorem zfield_required_iff_witness:
  "MapSource_init example_env VectorSource (boroughs\<lparr>kw_zfield := None\<rparr>)
     = Inl (ValueError ''You must include a zfield for min/max scan calculation'')
   \<and> MapSource_init example_env VectorSource boroughs
     \<noteq> Inl (ValueError ''You must include a zfield for min/max scan calculation'')
   \<and> MapSource_init example_env RasterSource
        (boroughs\<lparr>kw_zfield := None, kw_geometry_type := Some ''raster''\<rparr>)
     \<noteq> Inl (ValueError ''You must include a zfield for min/max scan calculation'')"
  using zfield_required_iff [of example_env VectorSource "boroughs\<lparr>kw_zfield := None\<rparr>"]
    zfield_required_iff [of example_env VectorSource boroughs]
    zfield_required_iff [of example_env RasterSource
       "boroughs\<lparr>kw_zfield := None, kw_geometry_type := Some ''raster''\<rparr>"]
  by (simp add: boroughs_def no_kwargs_def)

text \<open>
  Claim C6 as the specification states it, with the span \<^verbatim>\<open>'min-max'\<close>: the geometry
  type is \<^verbatim>\<open>'polygon'\<close> and there is no \<^verbatim>\<open>zfield\<close>, and the constructor returns an
  object.
\<close>

theorem span_hyphen_counterexample:
  "MapSource_init example_env VectorSource
      (boroughs\<lparr>kw_span := Some (SpanStr ''min-max''), kw_zfield := None\<rparr>)
   = Inr (init_attrs VectorSource
      (boroughs\<lparr>kw_span := Some (SpanStr ''min-max''), kw_zfield := None\<rparr>)
      ''geometry'' None (Colormap 0))"
  by (simp add: model_defs example_defs)

section \<open>Loading at construction\<close>

lemma any_step_overviews:
  "contains_overviews ts = (\<exists>t\<in>set ts. py_in ''overviews'' (step_name t))"
  by (simp add: contains_overviews_def filter_empty_conv)

text \<open>
  Claim C3. When the constructor returns, the object is loaded if and only if the
  argument \<^verbatim>\<open>preload\<close> is true or the name of some declared transform step contains
  \<^verbatim>\<open>'overviews'\<close>: in that case the constructor has called \<^verbatim>\<open>load\<close>, and it returned.
  Otherwise the object is left unloaded, with the data object and the overview mapping
  it was given.
\<close>

theorem eager_load_iff:
  "MapSource_init env c kw = Inr s \<Longrightarrow>
     (is_loaded s = (kw_preload kw = Some True
        \<or> (\<exists>t\<in>set (case kw_transforms kw of None \<Rightarrow> [] | Some ts \<Rightarrow> ts).
              py_in ''overviews'' (step_name t))))
     \<and> (\<not> is_loaded s \<longrightarrow>
          data s = kw_data kw
          \<and> overviews s = (case kw_overviews kw of None \<Rightarrow> [] | Some ov \<Rightarrow> ov))"
proof -
  assume a: "MapSource_init env c kw = Inr s"
  define geom where "geom = (case kw_geometry_field kw of None \<Rightarrow> ''geometry'' | Some g \<Rightarrow> g)"
  define ts where "ts = (case kw_transforms kw of None \<Rightarrow> [] | Some ts \<Rightarrow> ts)"
  define trigger where "trigger = (kw_preload kw = Some True \<or> (\<exists>t\<in>set ts. py_in ''overviews'' (step_name t)))"
  from a obtain cm where cm: "init_cmap env kw = Inr cm"
    unfolding MapSource_init_def Let_def by (auto split: if_splits sum.splits)
  define self :: "('a, 'b, 'c) source" where "self = init_attrs c kw geom (init_fields env kw geom) cm"
  have tr: "(preload self \<or> contains_overviews (transforms self)) = trigger"
    by (auto simp: self_def init_attrs_def any_step_overviews trigger_def ts_def split: option.splits)
  have fresh: "\<not> is_loaded self" "data self = kw_data kw"
    "overviews self = (case kw_overviews kw of None \<Rightarrow> [] | Some ov \<Rightarrow> ov)"
    by (simp_all add: self_def init_attrs_def)
  show ?thesis
  proof (cases trigger)
    case True
    with a cm tr have "load env self = (None, s)"
      unfolding MapSource_init_def Let_def self_def geom_def
      by (auto split: if_splits sum.splits prod.splits option.splits)
    then have "is_loaded s" by (rule load_returns_loaded)
    with True show ?thesis by (simp add: trigger_def ts_def)
  next
    case False
    with a cm tr have "s = self"
      unfolding MapSource_init_def Let_def self_def geom_def
      by (auto split: if_splits sum.splits prod.splits option.splits)
    with False fresh show ?thesis by (simp add: trigger_def ts_def)
  qed
qed

text \<open>The descriptor \<open>countries\<close> declares \<^verbatim>\<open>build_vector_overviews\<close> and is loaded
  by its constructor.\<close>

theorem eager_load_iff_witness:
  "MapSource_init example_env VectorSource countries = Inr countries_loaded
   \<and> is_loaded countries_loaded
   \<and> (\<exists>t\<in>set (case kw_transforms countries of None \<Rightarrow> [] | Some ts \<Rightarrow> ts).
              py_in ''overviews'' (step_name t))"
  using init_countries eager_load_iff [OF init_countries]
  by (simp add: countries_def no_kwargs_def plain_step_def sublist_code prefix_code)


section \<open>The extent of a source\<close>

lemma apply_step_data:
  "apply_step env tr s = (r, s') \<Longrightarrow> data s \<noteq> None \<Longrightarrow> data s' \<noteq> None"
  unfolding apply_step_def Let_def
  by (auto split: sum.splits if_splits prod.splits)

lemma apply_steps_data:
  "apply_steps env ts s = (r, s') \<Longrightarrow> data s \<noteq> None \<Longrightarrow> data s' \<noteq> None"
proof (induction ts arbitrary: s)
  case Nil
  then show ?case by simp
next
  case (Cons t ts)
  obtain r1 s1 where st: "apply_step env t s = (r1, s1)"
    by (cases "apply_step env t s")
  with Cons.prems have d1: "data s1 \<noteq> None" by (auto dest: apply_step_data)
  show ?case
  proof (cases r1)
    case None
    with st Cons.prems have "apply_steps env ts s1 = (r, s')" by simp
    from Cons.IH [OF this d1] show ?thesis .
  next
    case (Some e)
    with st Cons.prems have "s' = s1" by simp
    with d1 show ?thesis by simp
  qed
qed

lemma load_data_present:
  "load env s0 = (None, s) \<Longrightarrow> \<not> is_loaded s0 \<Longrightarrow> \<exists>d. data s = Some d"
  unfolding load_def finish_load_def apply_transforms_def
  by (auto split: sum.splits prod.splits option.splits if_splits dest!: apply_steps_data)

lemma frame_memo:
  "s' = s\<lparr>data := d, overviews := ov, is_loaded := l\<rparr> \<Longrightarrow> full_extent_memo s' = full_extent_memo s"
  by simp

lemma full_extent_miss:
  "full_extent_memo s = None \<Longrightarrow> data s = Some d \<Longrightarrow>
     fst (full_extent env s) =
       (case cls s of
          MapSource \<Rightarrow> Inl (AttributeError ''full_extent'')
        | RasterSource \<Rightarrow> spec_raster_extent env d
        | VectorSource \<Rightarrow> spec_vector_extent env d (geometry_field s))"
  unfolding extent_defs spec_raster_extent_def spec_vector_extent_def ext_def
  by (auto split: source_class.splits sum.splits)

text \<open>
  Claim C4, amended. For every source that \<^verbatim>\<open>load\<close> has loaded and whose extent was not
  requested before (the memo table has no entry for it), the object holds a data object
  and the extent computed is, for a raster source, the tuple (min x, min y, max x,
  max y) of the axes \<^verbatim>\<open>x\<close> and \<^verbatim>\<open>y\<close> of its coordinate grid, and for a vector source
  the bounds of the active geometry field, taken after the conversion to a row-wise
  frame when the store is columnar.
\<close>

theorem full_extent_after_load:
  "load env s0 = (None, s) \<Longrightarrow> \<not> is_loaded s0 \<Longrightarrow> full_extent_memo s0 = None \<Longrightarrow>
     is_loaded s \<and>
     (\<exists>d. data s = Some d \<and>
        fst (full_extent env s) =
          (case cls s of
             MapSource \<Rightarrow> Inl (AttributeError ''full_extent'')
           | RasterSource \<Rightarrow> spec_raster_extent env d
           | VectorSource \<Rightarrow> spec_vector_extent env d (geometry_field s)))"
proof -
  assume l: "load env s0 = (None, s)" and u: "\<not> is_loaded s0" and m: "full_extent_memo s0 = None"
  from l have ld: "is_loaded s" by (rule load_returns_loaded)
  from load_data_present [OF l u] obtain d where d: "data s = Some d" ..
  from load_frame [OF l] have "full_extent_memo s = full_extent_memo s0" by (rule frame_memo)
  with m have "full_extent_memo s = None" by simp
  from full_extent_miss [OF this d] ld d show ?thesis by blast
qed

text \<open>The extent of \<open>countries\<close>, first requested after loading, is that of the data
  object 202.\<close>

theorem full_extent_after_load_witness:
  "load example_env countries_unloaded = (None, countries_loaded)
   \<and> \<not> is_loaded countries_unloaded
   \<and> full_extent_memo countries_unloaded = None
   \<and> fst (full_extent example_env countries_loaded) = Inr (- 202, - 202, 202, 202)"
proof -
  have u: "\<not> is_loaded countries_unloaded" and m: "full_extent_memo countries_unloaded = None"
    by (simp_all add: countries_unloaded_def init_attrs_def)
  from full_extent_after_load [OF load_countries u m] load_countries u m show ?thesis
    by (simp add: countries_loaded_def countries_unloaded_def init_attrs_def
          spec_vector_extent_def ext_def example_env_def)
qed

text \<open>
  Claim C4 as the specification states it, for every loaded source: the extent of
  \<open>cities\<close> is requested before \<^verbatim>\<open>load\<close>, on the in-memory object 7, and memoized.
  After \<^verbatim>\<open>load\<close> the source is loaded and its data object is 8, whose bounds are
  \<open>(-8, -8, 8, 8)\<close>, and the extent of the source is still \<open>(-7, -7, 7, 7)\<close>.
\<close>

theorem stale_extent_counterexample:
  "MapSource_init example_env VectorSource cities = Inr cities_fresh
   \<and> full_extent example_env cities_fresh = (Inr (- 7, - 7, 7, 7), cities_asked)
   \<and> load example_env cities_asked = (None, cities_stale)
   \<and> is_loaded cities_stale
   \<and> cls cities_stale = VectorSource
   \<and> data cities_stale = Some 8
   \<and> spec_vector_extent example_env 8 (geometry_field cities_stale) = Inr (- 8, - 8, 8, 8)
   \<and> fst (full_extent example_env cities_stale) = Inr (- 7, - 7, 7, 7)"
  using init_cities ask_cities load_cities
  by (simp add: extent_defs spec_vector_extent_def init_attrs_def ext_def example_env_def more_defs)

section \<open>The extent before loading\<close>

lemma init_unloaded:
  "MapSource_init env c kw = Inr s \<Longrightarrow> \<not> is_loaded s \<Longrightarrow>
     \<exists>cm. s = init_attrs c kw (case kw_geometry_field kw of None \<Rightarrow> ''geometry'' | Some g \<Rightarrow> g)
                (init_fields env kw (case kw_geometry_field kw of None \<Rightarrow> ''geometry'' | Some g \<Rightarrow> g)) cm"
  unfolding MapSource_init_def Let_def
  by (auto split: if_splits sum.splits prod.splits option.splits dest: load_returns_loaded)

text \<open>
  Claim C5, amended. For a source that was constructed without an in-memory data
  object and is not loaded, the request of the extent raises: \<^verbatim>\<open>AttributeError\<close> for
  a raster source (\<^verbatim>\<open>None\<close> has no \<^verbatim>\<open>coords\<close>) and for the base class (which has no
  such property), \<^verbatim>\<open>TypeError\<close> for a vector source (\<^verbatim>\<open>None\<close> cannot be subscripted).
  Nothing catches the exception, and the object is left as it was.
\<close>

theorem extent_before_load_fails:
  "MapSource_init env c kw = Inr s \<Longrightarrow> \<not> is_loaded s \<Longrightarrow> kw_data kw = None \<Longrightarrow>
     full_extent env s =
       (Inl (case c of
               MapSource \<Rightarrow> AttributeError ''full_extent''
             | RasterSource \<Rightarrow> AttributeError ''coords''
             | VectorSource \<Rightarrow> TypeError ''NoneType is not subscriptable''), s)"
proof -
  assume a: "MapSource_init env c kw = Inr s" and u: "\<not> is_loaded s" and n: "kw_data kw = None"
  from init_unloaded [OF a u] obtain cm where
    s: "s = init_attrs c kw (case kw_geometry_field kw of None \<Rightarrow> ''geometry'' | Some g \<Rightarrow> g)
                (init_fields env kw (case kw_geometry_field kw of None \<Rightarrow> ''geometry'' | Some g \<Rightarrow> g)) cm" ..
  have "cls s = c" "data s = None" "full_extent_memo s = None"
    using n by (simp_all add: s init_attrs_def)
  then show ?thesis
    by (cases c) (simp_all add: extent_defs)
qed

text \<open>The boroughs are read from a file and not loaded by their constructor.\<close>

theorem extent_before_load_fails_witness:
  "MapSource_init example_env VectorSource boroughs
     = Inr (init_attrs VectorSource boroughs ''geometry'' None (Colormap 0))
   \<and> \<not> is_loaded (init_attrs VectorSource boroughs ''geometry'' None (Colormap 0) :: (nat, int, nat) source)
   \<and> kw_data boroughs = None
   \<and> full_extent example_env (init_attrs VectorSource boroughs ''geometry'' None (Colormap 0))
     = (Inl (TypeError ''NoneType is not subscriptable''),
        init_attrs VectorSource boroughs ''geometry'' None (Colormap 0))"
proof -
  have i: "MapSource_init example_env VectorSource boroughs
     = Inr (init_attrs VectorSource boroughs ''geometry'' None (Colormap 0))"
    by (simp add: model_defs example_defs)
  have u: "\<not> is_loaded (init_attrs VectorSource boroughs ''geometry'' None (Colormap 0) :: (nat, int, nat) source)"
    by (simp add: init_attrs_def)
  have n: "kw_data boroughs = None" by (simp add: boroughs_def no_kwargs_def)
  from extent_before_load_fails [OF i u n] i u n show ?thesis by simp
qed

text \<open>
  Claim C5 as the specification states it, for every descriptor: \<open>cities\<close> holds an
  in-memory data object, is not loaded, and the request of its extent returns a
  value.
\<close>

theorem extent_before_load_counterexample:
  "MapSource_init example_env VectorSource cities = Inr cities_fresh
   \<and> \<not> is_loaded cities_fresh
   \<and> fst (full_extent example_env cities_fresh) = Inr (- 7, - 7, 7, 7)"
  using init_cities ask_cities by (simp add: cities_fresh_def init_attrs_def)


section \<open>The class of a source made from a raw descriptor\<close>

lemma init_frame:
  "MapSource_init env c kw = Inr s \<Longrightarrow>
     \<exists>g f cm d ov l. s = (init_attrs c kw g f cm)\<lparr>data := d, overviews := ov, is_loaded := l\<rparr>"
proof -
  assume a: "MapSource_init env c kw = Inr s"
  define geom where "geom = (case kw_geometry_field kw of None \<Rightarrow> ''geometry'' | Some g \<Rightarrow> g)"
  from a obtain cm where s_cases:
    "s = init_attrs c kw geom (init_fields env kw geom) cm
     \<or> (\<exists>r. load env (init_attrs c kw geom (init_fields env kw geom) cm) = (r, s))"
    unfolding MapSource_init_def Let_def geom_def
    by (auto split: if_splits sum.splits prod.splits option.splits)
  define self :: "('a, 'b, 'c) source" where "self = init_attrs c kw geom (init_fields env kw geom) cm"
  from s_cases have "s = self \<or> (\<exists>r. load env self = (r, s))" by (simp add: self_def)
  then show ?thesis
  proof
    assume "s = self"
    then have "s = self\<lparr>data := data self, overviews := overviews self, is_loaded := is_loaded self\<rparr>"
      by simp
    then show ?thesis unfolding self_def by blast
  next
    assume "\<exists>r. load env self = (r, s)"
    then obtain r where "load env self = (r, s)" ..
    from load_frame [OF this] show ?thesis unfolding self_def by blast
  qed
qed

lemma init_cls: "MapSource_init env c kw = Inr s \<Longrightarrow> cls s = c"
  by (drule init_frame) (auto simp: init_attrs_def)

lemma init_key: "MapSource_init env c kw = Inr s \<Longrightarrow> key s = kw_key kw"
  by (drule init_frame) (auto simp: init_attrs_def)

lemma init_config_path: "MapSource_init env c kw = Inr s \<Longrightarrow> config_path s = kw_config_path kw"
  by (drule init_frame) (auto simp: init_attrs_def)

lemma from_obj_init:
  "from_obj env obj = Inr s \<Longrightarrow> \<exists>c. MapSource_init env c obj = Inr s"
  unfolding from_obj_def Let_def by (auto split: option.splits if_splits)

text \<open>
  Claim C8. When \<^verbatim>\<open>from_obj\<close> returns an object for a raw descriptor, the object is a
  \<^verbatim>\<open>RasterSource\<close> exactly when the descriptor declares the geometry type \<^verbatim>\<open>'raster'\<close>
  or its list of transforms has a step named \<^verbatim>\<open>'raster_to_categorical_points'\<close>, and
  it is a \<^verbatim>\<open>VectorSource\<close> in every other case.
\<close>

theorem from_obj_class:
  "from_obj env obj = Inr s \<Longrightarrow>
     (cls s = RasterSource) =
       (kw_geometry_type obj = Some ''raster''
        \<or> (\<exists>t\<in>set (case kw_transforms obj of None \<Rightarrow> [] | Some ts \<Rightarrow> ts).
              step_name t = ''raster_to_categorical_points''))
     \<and> (cls s \<noteq> RasterSource \<longrightarrow> cls s = VectorSource)"
  unfolding from_obj_def Let_def
  by (auto split: option.splits if_splits dest!: init_cls simp: filter_empty_conv)

text \<open>The elevation is made a raster source, the boroughs a vector source.\<close>

theorem from_obj_class_witness:
  "from_obj example_env elevation = Inr elevation_source
   \<and> cls elevation_source = RasterSource
   \<and> kw_geometry_type elevation = Some ''raster''
   \<and> from_obj example_env boroughs = Inr boroughs_source
   \<and> cls boroughs_source = VectorSource"
  using from_obj_elevation from_obj_boroughs
    from_obj_class [OF from_obj_elevation] from_obj_class [OF from_obj_boroughs]
  by (simp add: elevation_def boroughs_def no_kwargs_def plain_step_def)

section \<open>The services of a catalog\<close>

lemma from_obj_key: "from_obj env obj = Inr s \<Longrightarrow> key s = kw_key obj"
  by (auto dest!: from_obj_init init_key)

lemma from_obj_config_path: "from_obj env obj = Inr s \<Longrightarrow> config_path s = kw_config_path obj"
  by (auto dest!: from_obj_init init_config_path)

lemma service_classes_type: "service_classes st = Some klass \<Longrightarrow> service_type klass = st"
  by (auto simp: service_classes_def split: if_splits)

lemma make_services_sources:
  "make_services src k c sts = (ys, e) \<Longrightarrow> y \<in> set ys \<Longrightarrow> svc_source y = src"
proof (induction sts arbitrary: ys e)
  case Nil
  then show ?case by simp
next
  case (Cons st sts)
  then show ?case
    by (auto split: sum.splits if_splits option.splits prod.splits)
qed

lemma make_services_all:
  "make_services src k None sts = (ys, None) \<Longrightarrow> map (\<lambda>y. service_type (svc_class y)) ys = sts"
proof (induction sts arbitrary: ys)
  case Nil
  then show ?case by simp
next
  case (Cons st sts)
  then show ?case
    by (auto simp: skip_service_def split: option.splits prod.splits dest: service_classes_type)
qed

lemma make_services_filtered:
  "make_services src (Some kk) None sts = (ys, None) \<Longrightarrow> c \<noteq> [] \<Longrightarrow>
     make_services src (Some kk) (Some c) sts = (if py_in c kk then ys else [], None)"
proof (induction sts arbitrary: ys)
  case Nil
  then show ?case by simp
next
  case (Cons st sts)
  then show ?case
    by (auto simp: skip_service_def split: option.splits prod.splits)
qed

lemma filter_same_source:
  "\<forall>y\<in>set ys. svc_source y = src \<Longrightarrow> key src = Some kk \<Longrightarrow>
     filter (key_contains c) ys = (if py_in c kk then ys else [])"
  by (induction ys) (auto simp: key_contains_def)

lemma parse_sources_types:
  "parse_sources env h rs cfg None = (ys, None, h') \<Longrightarrow>
     map (\<lambda>y. service_type (svc_class y)) ys = declared_types h rs"
proof (induction rs arbitrary: h ys)
  case Nil
  then show ?case by (simp add: declared_types_def)
next
  case (Cons r rs)
  from Cons.prems obtain src sts ys1 ys2 where
    src: "from_obj env (h r) = Inr src" and
    sts: "kw_service_types (h r) = Some sts" and
    ys1: "make_services src (kw_key (h r)) None sts = (ys1, None)" and
    rest: "parse_sources env (if sts = [] then h else h(r := (h r)\<lparr>kw_config_path := cfg\<rparr>))
             rs cfg None = (ys2, None, h')" and
    ys: "ys = ys1 @ ys2"
    by (auto simp: Let_def split: sum.splits option.splits prod.splits)
  define h1 where "h1 = (if sts = [] then h else h(r := (h r)\<lparr>kw_config_path := cfg\<rparr>))"
  have same: "\<And>a. kw_service_types (h1 a) = kw_service_types (h a)"
    by (simp add: h1_def)
  from rest have "map (\<lambda>y. service_type (svc_class y)) ys2 = declared_types h1 rs"
    unfolding h1_def by (rule Cons.IH)
  also have "declared_types h1 rs = declared_types h rs"
    by (simp add: declared_types_def same)
  finally show ?case
    using make_services_all [OF ys1] sts ys by (simp add: declared_types_def)
qed

lemma parse_sources_filtered:
  "parse_sources env h rs cfg None = (ys, None, h') \<Longrightarrow> c \<noteq> [] \<Longrightarrow>
   \<forall>r\<in>set rs. kw_key (h r) \<noteq> None \<Longrightarrow>
     parse_sources env h rs cfg (Some c) = (filter (key_contains c) ys, None, h')"
proof (induction rs arbitrary: h ys)
  case Nil
  then show ?case by simp
next
  case (Cons r rs)
  from Cons.prems(1) obtain src sts ys1 ys2 where
    src: "from_obj env (h r) = Inr src" and
    sts: "kw_service_types (h r) = Some sts" and
    ys1: "make_services src (kw_key (h r)) None sts = (ys1, None)" and
    rest: "parse_sources env (if sts = [] then h else h(r := (h r)\<lparr>kw_config_path := cfg\<rparr>))
             rs cfg None = (ys2, None, h')" and
    ys: "ys = ys1 @ ys2"
    by (auto simp: Let_def split: sum.splits option.splits prod.splits)
  define h1 where "h1 = (if sts = [] then h else h(r := (h r)\<lparr>kw_config_path := cfg\<rparr>))"
  from Cons.prems(3) obtain kk where kk: "kw_key (h r) = Some kk" by auto
  have keys: "\<forall>a\<in>set rs. kw_key (h1 a) \<noteq> None"
    using Cons.prems(3) by (simp add: h1_def)
  from rest have "parse_sources env h1 rs cfg None = (ys2, None, h')" by (simp add: h1_def)
  from Cons.IH [OF this Cons.prems(2) keys]
  have rest_c: "parse_sources env h1 rs cfg (Some c) = (filter (key_contains c) ys2, None, h')" .
  from ys1 kk have "make_services src (Some kk) None sts = (ys1, None)" by simp
  from make_services_filtered [OF this Cons.prems(2)]
  have ys1_c: "make_services src (Some kk) (Some c) sts = (if py_in c kk then ys1 else [], None)" .
  have "key src = Some kk" using from_obj_key [OF src] kk by simp
  moreover have "\<forall>y\<in>set ys1. svc_source y = src"
    using make_services_sources [OF ys1] by blast
  ultimately have f1: "filter (key_contains c) ys1 = (if py_in c kk then ys1 else [])"
    by (rule filter_same_source [rotated])
  show ?case
    using src sts kk ys1_c rest_c f1 ys by (simp add: h1_def Let_def)
qed

text \<open>
  Claim C7. Let the catalog builder run to its end without a filter. Then it yields one
  service for every declared service type of every descriptor, in the order of the
  declarations, so for \<open>N\<close> descriptors that declare \<open>S\<close> service types each it yields
  \<open>N * S\<close> services. Called with a filter string instead (the descriptors having
  keys), it yields exactly those of these services whose descriptor key contains the
  string, and leaves the same store.
\<close>

theorem catalog_builder:
  "parse_sources env h rs cfg None = (ys, None, h') \<Longrightarrow>
     map (\<lambda>y. service_type (svc_class y)) ys = declared_types h rs
     \<and> ((\<forall>r\<in>set rs. \<exists>sts. kw_service_types (h r) = Some sts \<and> length sts = S)
          \<longrightarrow> length ys = length rs * S)
     \<and> (c \<noteq> [] \<and> (\<forall>r\<in>set rs. kw_key (h r) \<noteq> None)
          \<longrightarrow> parse_sources env h rs cfg (Some c) = (filter (key_contains c) ys, None, h'))"
proof -
  assume run: "parse_sources env h rs cfg None = (ys, None, h')"
  have types: "map (\<lambda>y. service_type (svc_class y)) ys = declared_types h rs"
    using run by (rule parse_sources_types)
  have count: "length ys = length rs * S"
    if "\<forall>r\<in>set rs. \<exists>sts. kw_service_types (h r) = Some sts \<and> length sts = S"
  proof -
    from that have "length (declared_types h rs) = length rs * S"
      by (induction rs) (auto simp: declared_types_def)
    with types show ?thesis by (metis length_map)
  qed
  from types count parse_sources_filtered [OF run] show ?thesis by blast
qed

text \<open>The catalog of the boroughs and the elevation: eight services without a filter,
  and with the filter \<^verbatim>\<open>'nyc'\<close> those of the boroughs.\<close>

theorem catalog_builder_witness:
  "parse_sources example_env catalog [0, 1] (Some site_config) None
     = (catalog_services, None, catalog_after)
   \<and> kw_service_types (catalog 0) = Some [''tile'', ''wms'', ''image'', ''geojson'']
   \<and> kw_service_types (catalog 1) = Some [''tile'', ''wms'', ''image'', ''geojson'']
   \<and> length catalog_services = length [0 :: nat, 1] * 4
   \<and> parse_sources example_env catalog [0, 1] (Some site_config) (Some ''nyc'')
     = (filter (key_contains ''nyc'') catalog_services, None, catalog_after)
   \<and> filter (key_contains ''nyc'') catalog_services = services_of boroughs_source"
proof -
  have d: "\<forall>r\<in>set [0 :: nat, 1]. \<exists>sts. kw_service_types (catalog r) = Some sts \<and> length sts = 4"
    by (simp add: catalog_def boroughs_facts elevation_facts)
  have k: "\<forall>r\<in>set [0 :: nat, 1]. kw_key (catalog r) \<noteq> None"
    by (simp add: catalog_def boroughs_facts elevation_facts)
  have f: "filter (key_contains ''nyc'') catalog_services = services_of boroughs_source"
    by (simp add: key_contains_def catalog_services_def services_of_def boroughs_source_def
          elevation_source_def init_attrs_def boroughs_facts elevation_facts
          sublist_code prefix_code)
  from catalog_builder [OF run_catalog, of 4 "''nyc''"] run_catalog d k f show ?thesis
    by (simp add: catalog_def boroughs_facts elevation_facts)
qed

section \<open>The configuration path of a source made by the catalog builder\<close>

lemma data_path_plain:
  "\<not> truthy (config_path s) \<Longrightarrow> data_path env s = path_of_filepath env (filepath s)"
  by (auto simp: data_path_def truthy_def split: option.splits)

lemma parse_sources_untouched:
  "parse_sources env h rs cfg c = (ys, e, h') \<Longrightarrow> r \<notin> set rs \<Longrightarrow> h' r = h r"
proof (induction rs arbitrary: h ys e h')
  case Nil
  then show ?case by simp
next
  case (Cons a rs)
  show ?case
  proof (cases "from_obj env (h a)")
    case (Inl x)
    with Cons.prems show ?thesis by simp
  next
    case (Inr src)
    show ?thesis
    proof (cases "kw_service_types (h a)")
      case None
      with Inr Cons.prems show ?thesis by simp
    next
      case (Some sts)
      define h1 where "h1 = (if sts = [] then h else h(a := (h a)\<lparr>kw_config_path := cfg\<rparr>))"
      from Cons.prems(2) have h1r: "h1 r = h r" by (simp add: h1_def)
      obtain ys1 e1 where ys1: "make_services src (kw_key (h a)) c sts = (ys1, e1)"
        by (cases "make_services src (kw_key (h a)) c sts")
      show ?thesis
      proof (cases e1)
        case (Some x)
        with Inr \<open>kw_service_types (h a) = Some sts\<close> ys1 Cons.prems(1) have "h' = h1"
          by (simp add: Let_def h1_def)
        with h1r show ?thesis by simp
      next
        case None
        obtain ys2 e2 h2 where rest: "parse_sources env h1 rs cfg c = (ys2, e2, h2)"
          by (cases "parse_sources env h1 rs cfg c")
        with Inr \<open>kw_service_types (h a) = Some sts\<close> ys1 None Cons.prems(1) have "h' = h2"
          by (simp add: Let_def h1_def)
        moreover from Cons.prems(2) have "r \<notin> set rs" by simp
        from Cons.IH [OF rest this] have "h2 r = h1 r" .
        ultimately show ?thesis using h1r by simp
      qed
    qed
  qed
qed

lemma parse_sources_append:
  "parse_sources env h pre cfg c = (ys0, None, h0) \<Longrightarrow>
     parse_sources env h (pre @ rest) cfg c =
       (case parse_sources env h0 rest cfg c of (ys1, e, h1) \<Rightarrow> (ys0 @ ys1, e, h1))"
proof (induction pre arbitrary: h ys0)
  case Nil
  then show ?case by (simp split: prod.splits)
next
  case (Cons a pre)
  from Cons.prems obtain src sts ys1 ys2 where
    src: "from_obj env (h a) = Inr src" and
    sts: "kw_service_types (h a) = Some sts" and
    ys1: "make_services src (kw_key (h a)) c sts = (ys1, None)" and
    rest: "parse_sources env (if sts = [] then h else h(a := (h a)\<lparr>kw_config_path := cfg\<rparr>))
             pre cfg c = (ys2, None, h0)" and
    ys: "ys0 = ys1 @ ys2"
    by (auto simp: Let_def split: sum.splits option.splits prod.splits)
  from Cons.IH [OF rest] src sts ys1 ys show ?case
    by (simp add: Let_def split: prod.splits)
qed

text \<open>
  Claim C9, amended. Take any list given to the catalog builder and a dictionary \<open>r\<close>
  in it that has not occurred earlier in the list (so every dictionary that occurs
  once), and let the builder get as far as \<open>r\<close>, having yielded \<open>ys0\<close> for the
  dictionaries before it. Then \<^verbatim>\<open>from_obj\<close> is called on \<open>r\<close> as the store held it
  before the call of the builder: the services yielded next are those made with the
  source that \<^verbatim>\<open>from_obj\<close> makes from that dictionary. The \<^verbatim>\<open>config_path\<close> of this
  source is the one the dictionary already had (\<^verbatim>\<open>None\<close> when the key was absent),
  whatever the argument \<^verbatim>\<open>config_path\<close> is; and unless the dictionary carried a
  non-empty \<^verbatim>\<open>config_path\<close> of its own, the path resolution of \<^verbatim>\<open>load\<close> for this
  source does not take the branch of the configuration directory.
\<close>

theorem built_from_own_dictionary:
  "parse_sources env h pre cfg contains = (ys0, None, h0) \<Longrightarrow> r \<notin> set pre \<Longrightarrow>
   parse_sources env h (pre @ r # post) cfg contains = (ys, err, h') \<Longrightarrow>
     (case from_obj env (h r) of
        Inl e \<Rightarrow> ys = ys0 \<and> err = Some e
      | Inr src \<Rightarrow>
          config_path src = kw_config_path (h r)
          \<and> (\<not> truthy (kw_config_path (h r)) \<longrightarrow>
                data_path env src = path_of_filepath env (filepath src))
          \<and> (case kw_service_types (h r) of
                None \<Rightarrow> ys = ys0 \<and> err = Some (KeyError ''service_types'')
              | Some sts \<Rightarrow>
                  prefix (ys0 @ fst (make_services src (kw_key (h r)) contains sts)) ys))"
proof -
  assume pre: "parse_sources env h pre cfg contains = (ys0, None, h0)"
    and r: "r \<notin> set pre"
    and run: "parse_sources env h (pre @ r # post) cfg contains = (ys, err, h')"
  from parse_sources_untouched [OF pre r] have same: "h0 r = h r" .
  obtain ys1 e1 h1 where tail: "parse_sources env h0 (r # post) cfg contains = (ys1, e1, h1)"
    by (cases "parse_sources env h0 (r # post) cfg contains")
  with parse_sources_append [OF pre, of "r # post"] run
  have ys: "ys = ys0 @ ys1" and err: "err = e1" by simp_all
  show ?thesis
  proof (cases "from_obj env (h r)")
    case (Inl e)
    with tail same ys err show ?thesis by simp
  next
    case (Inr src)
    have cp: "config_path src = kw_config_path (h r)"
      using Inr by (rule from_obj_config_path)
    then have dp: "\<not> truthy (kw_config_path (h r)) \<longrightarrow>
                data_path env src = path_of_filepath env (filepath src)"
      by (simp add: data_path_plain)
    show ?thesis
    proof (cases "kw_service_types (h r)")
      case None
      with Inr tail same ys err cp dp show ?thesis by simp
    next
      case (Some sts)
      obtain zs e2 where ms: "make_services src (kw_key (h r)) contains sts = (zs, e2)"
        by (cases "make_services src (kw_key (h r)) contains sts")
      have "prefix zs ys1"
        using tail same Inr Some ms
        by (cases e2) (auto simp: Let_def split: prod.splits)
      with ys ms Inr Some cp dp show ?thesis by simp
    qed
  qed
qed

lemma run_boroughs:
  "parse_sources example_env catalog [0] (Some site_config) None
     = (services_of boroughs_source, None,
        catalog(0 := boroughs\<lparr>kw_config_path := Some site_config\<rparr>))"
  by (simp add: catalog_def from_obj_boroughs boroughs_facts services_of_def
        service_classes_def skip_service_def Let_def)

text \<open>
  The list holds the boroughs, the elevation and the boroughs again. The elevation
  occurs once: its source has no configuration path, although the builder was called
  with one and the boroughs before it have already received it.
\<close>

theorem built_from_own_dictionary_witness:
  "parse_sources example_env catalog [0] (Some site_config) None
     = (services_of boroughs_source, None,
        catalog(0 := boroughs\<lparr>kw_config_path := Some site_config\<rparr>))
   \<and> 1 \<notin> set [0 :: nat]
   \<and> from_obj example_env (catalog 1) = Inr elevation_source
   \<and> kw_config_path (catalog 1) = None
   \<and> config_path elevation_source = None
   \<and> data_path example_env elevation_source
     = path_of_filepath example_env (filepath elevation_source)
   \<and> prefix (services_of boroughs_source @ services_of elevation_source)
        (fst (parse_sources example_env catalog [0, 1, 0] (Some site_config) None))"
proof -
  have n: "1 \<notin> set [0 :: nat]" by simp
  have run: "parse_sources example_env catalog ([0] @ 1 # [0]) (Some site_config) None
     = (fst (parse_sources example_env catalog [0, 1, 0] (Some site_config) None),
        fst (snd (parse_sources example_env catalog [0, 1, 0] (Some site_config) None)),
        snd (snd (parse_sources example_env catalog [0, 1, 0] (Some site_config) None)))"
    by simp
  have c: "kw_config_path (catalog 1) = None"
    by (simp add: catalog_def elevation_def no_kwargs_def)
  have f: "from_obj example_env (catalog 1) = Inr elevation_source"
    by (simp add: catalog_def from_obj_elevation)
  have m: "fst (make_services elevation_source (kw_key (catalog 1)) None
                  [''tile'', ''wms'', ''image'', ''geojson''])
           = services_of elevation_source"
    by (simp add: services_of_def service_classes_def skip_service_def)
  have t: "kw_service_types (catalog 1) = Some [''tile'', ''wms'', ''image'', ''geojson'']"
    by (simp add: catalog_def elevation_facts)
  from built_from_own_dictionary [OF run_boroughs n run] run_boroughs n c f m t
  show ?thesis by (simp add: truthy_def)
qed

text \<open>
  Claim C9 as it is stated, for every source made by the catalog builder: here one
  dictionary, the boroughs without a \<^verbatim>\<open>config_path\<close>, occurs twice in the list. Line
  795 writes the argument into the dictionary while the services of its first
  occurrence are made, and the source made for the second occurrence has the argument
  as its \<^verbatim>\<open>config_path\<close>; its data path is resolved in the directory of the
  configuration file.
\<close>

theorem config_path_reaches_counterexample:
  "fst (snd (parse_sources example_env (\<lambda>a. boroughs) [0, 0] (Some site_config) None)) = None
   \<and> map (\<lambda>y. config_path (svc_source y))
        (fst (parse_sources example_env (\<lambda>a. boroughs) [0, 0] (Some site_config) None))
     = [None, None, None, None,
        Some site_config, Some site_config, Some site_config, Some site_config]
   \<and> map (\<lambda>y. data_path example_env (svc_source y))
        (fst (parse_sources example_env (\<lambda>a. boroughs) [0, 0] (Some site_config) None))
     = [Inr ''/srv/data/nybb.shp'', Inr ''/srv/data/nybb.shp'',
        Inr ''/srv/data/nybb.shp'', Inr ''/srv/data/nybb.shp'',
        Inr ''/etc/mapshader/data/nybb.shp'', Inr ''/etc/mapshader/data/nybb.shp'',
        Inr ''/etc/mapshader/data/nybb.shp'', Inr ''/etc/mapshader/data/nybb.shp'']"
  by (simp add: builder_defs model_defs example_defs catalog_defs)


end
